theory Spec2Isabelle
  imports Complex_Main "HOL-Library.Log_Nat"
begin

section \<open>Values of the host language\<close>

text \<open>
  Row keys are the strings the store generates (\<open>planCode\<close> is compared with a plan's
  key and with its name, so keys and names have one type). A key is truthy in a
  JavaScript condition when it is present and not the empty string.
\<close>

type_synonym key = string

definition truthy :: "string option \<Rightarrow> bool" where
  "truthy v = (case v of None \<Rightarrow> False | Some s \<Rightarrow> s \<noteq> [])"

subsection \<open>Numbers\<close>

text \<open>
  A finite JavaScript number is an IEEE 754 double; it is represented by its exact
  rational value. \<open>round_double\<close> rounds a rational to the nearest double, ties to the
  even significand (53 significant bits, least exponent \<open>-1074\<close>); \<open>NaN\<close> and the
  infinities (magnitudes from \<open>2 ^ 1024\<close> on) are outside the model. The operators
  \<open>*\<close> and \<open>+\<close> of the language are the exact operation followed by that rounding, and a
  decimal literal denotes the double nearest to it.
\<close>

type_synonym number = rat

definition pow2 :: "int \<Rightarrow> rat" where
  "pow2 e = (if 0 \<le> e then 2 ^ nat e else 1 / 2 ^ nat (- e))"

definition binade :: "rat \<Rightarrow> int" where
  "binade q =
     (let d = bitlen (fst (quotient_of q)) - bitlen (snd (quotient_of q))
      in if pow2 d \<le> q then d else d - 1)"

definition round_half_even :: "rat \<Rightarrow> int" where
  "round_half_even q =
     (let f = \<lfloor>q\<rfloor>; r = q - of_int f
      in if r < 1 / 2 then f else if 1 / 2 < r then f + 1
         else if even f then f else f + 1)"

definition round_double :: "rat \<Rightarrow> number" where
  "round_double q =
     (if q = 0 then 0
      else let e = max (binade \<bar>q\<bar> - 52) (- 1074)
           in sgn q * of_int (round_half_even (\<bar>q\<bar> / pow2 e)) * pow2 e)"

definition js_mul :: "number \<Rightarrow> number \<Rightarrow> number" where
  "js_mul a b = round_double (a * b)"

definition js_add :: "number \<Rightarrow> number \<Rightarrow> number" where
  "js_add a b = round_double (a + b)"

subsection \<open>Dates\<close>

text \<open>
  A \<open>Date\<close> is held by its local calendar fields: year, month (0 to 11, as
  \<open>getMonth\<close> counts), day of the month (from 1) and the milliseconds since local
  midnight. The local time zone has a fixed offset, so that the order of instants is the
  lexicographic order of the fields.
\<close>

record date =
  year :: int
  month :: nat
  day :: nat
  msec :: int

definition date_le :: "date \<Rightarrow> date \<Rightarrow> bool" where
  "date_le a b =
     (year a < year b \<or> (year a = year b \<and>
       (month a < month b \<or> (month a = month b \<and>
         (day a < day b \<or> (day a = day b \<and> msec a \<le> msec b))))))"

definition leap_year :: "int \<Rightarrow> bool" where
  "leap_year y = (y mod 4 = 0 \<and> (y mod 100 \<noteq> 0 \<or> y mod 400 = 0))"

definition days_in_month :: "int \<Rightarrow> nat \<Rightarrow> nat" where
  "days_in_month y m =
     (if m = 1 then (if leap_year y then 29 else 28)
      else if m = 3 \<or> m = 5 \<or> m = 8 \<or> m = 10 then 30 else 31)"

text \<open>
  \<open>MakeDay\<close> of the language: a day of the month beyond the month's last day runs on
  into the following months.
\<close>

function carry_days :: "int \<Rightarrow> nat \<Rightarrow> nat \<Rightarrow> int \<times> nat \<times> nat" where
  "carry_days y m d =
     (if days_in_month y m < d
      then (if m = 11 then carry_days (y + 1) 0 (d - days_in_month y m)
            else carry_days y (m + 1) (d - days_in_month y m))
      else (y, m, d))"
  by pat_completeness auto
termination
  by (relation "measure (\<lambda>(y, m, d). d)") (auto simp: days_in_month_def)

declare carry_days.simps [simp del]

definition getMonth :: "date \<Rightarrow> nat" where
  "getMonth t = month t"

definition setMonth :: "date \<Rightarrow> nat \<Rightarrow> date" where
  "setMonth t m =
     (case carry_days (year t + int (m div 12)) (m mod 12) (day t) of
        (y, m', d) \<Rightarrow> t\<lparr>year := y, month := m', day := d\<rparr>)"

text \<open>\<open>setHours(0, 0, 0, 0)\<close>: local midnight of the same day.\<close>

definition startOfDay :: "date \<Rightarrow> date" where
  "startOfDay t = t\<lparr>msec := 0\<rparr>"

section \<open>The store\<close>

text \<open>
  Modelled from the spec: the row types of the store (the schema of the store is not among
  the sources). Each row has the fields of the data model that the service and the
  controllers read or write, under the names the code uses for them; a field name that
  several tables share carries the initial of its table (\<open>s_userId\<close>, \<open>l_userId\<close>).
  Credit amounts are whole numbers, prices and payments are numbers of the language.
  A table is the list of its rows, oldest first.

  A subscription has, beside the fields of the data model, the four columns that only the
  signup controller writes (\<open>stripeSubscriptionId\<close>, \<open>startDate\<close>, \<open>endDate\<close>,
  \<open>remainingCredits\<close>); they are null in a row that is created without them.
\<close>

record user =
  u_id :: key
  clerkUserId :: string
  email :: string
  u_name :: string
  referredById :: "key option"

record plan =
  p_id :: key
  p_name :: string
  priceMonthly :: number
  priceYearly :: number
  dailyCredits :: int
  monthlyCredits :: int
  isDaily :: bool
  p_description :: string

record subscription =
  s_id :: key
  s_userId :: key
  s_planId :: key
  billingCycle :: string
  status :: string
  currentPeriodStart :: date
  currentPeriodEnd :: date
  cancelAtPeriodEnd :: bool
  canceledAt :: "date option"
  updatedAt :: date
  stripeSubscriptionId :: "string option"
  startDate :: "date option"
  endDate :: "date option"
  s_remainingCredits :: "int option"

record credit_ledger =
  l_userId :: key
  l_subscriptionId :: key
  l_amount :: int
  l_type :: string
  l_description :: string

record billing_history =
  b_userId :: key
  b_subscriptionId :: key
  b_amount :: number
  b_currency :: string
  b_status :: string
  paymentDate :: date
  b_externalPaymentId :: string

record daily_usage =
  d_userId :: key
  d_subscriptionId :: key
  d_date :: date
  usageCount :: int

record referral_stats =
  r_userId :: key
  referenceId :: string
  totalUsersSigned :: int
  totalPaidSubscribers :: int
  totalEarning :: number

record store =
  users :: "user list"
  plans :: "plan list"
  subscriptions :: "subscription list"
  creditLedger :: "credit_ledger list"
  billingHistory :: "billing_history list"
  dailyUsage :: "daily_usage list"
  referralStats :: "referral_stats list"

subsection \<open>Errors and actions\<close>

text \<open>
  Every \<open>throw new Error(...)\<close> of the service is a value of \<open>error\<close>; the
  constructor carries what the message interpolates. A rejected call of the store
  client is \<open>StoreError\<close> with the client's message.
\<close>

datatype error =
    UserNotFound string
  | PlanNotFound string
  | NoActiveSubscription
  | DailyLimitExceeded int int
  | InsufficientCredits int int
  | StoreError string

text \<open>
  An asynchronous function is an action on the store: it returns its value or the error
  it throws, and the store as it has left it. \<open>await m k\<close> runs \<open>m\<close> and continues
  with \<open>k\<close> on its value; an error of \<open>m\<close> ends the sequence, the writes made so far
  remaining.
\<close>

type_synonym 'a action = "store \<Rightarrow> (error + 'a) \<times> store"

definition return :: "'a \<Rightarrow> 'a action" where
  "return a db = (Inr a, db)"

definition throw :: "error \<Rightarrow> 'a action" where
  "throw e db = (Inl e, db)"

definition await :: "'a action \<Rightarrow> ('a \<Rightarrow> 'b action) \<Rightarrow> 'b action" where
  "await m k db = (case m db of (Inl e, db') \<Rightarrow> (Inl e, db') | (Inr a, db') \<Rightarrow> k a db')"

text \<open>
  \<open>prisma.$transaction(async (tx) => ...)\<close>: the writes of the callback are kept when it
  returns and undone when it throws.
\<close>

definition transaction :: "'a action \<Rightarrow> 'a action" where
  "transaction body db =
     (case body db of (Inl e, db') \<Rightarrow> (Inl e, db) | (Inr a, db') \<Rightarrow> (Inr a, db'))"

text \<open>
  Any call of the store client may be rejected (connection lost, constraint violated,
  time-out). \<open>faults\<close> says which calls are: the call site, the key the call is about,
  and the message of the rejection. \<open>no_faults\<close> is a store that answers every call.
\<close>

datatype store_call =
    User_findUnique | User_findFirst | User_create
  | Plan_findFirst | Plan_findUnique | Plan_create
  | Subscription_findFirst | Subscription_findMany
  | Subscription_update | Subscription_create
  | CreditLedger_create | CreditLedger_aggregate
  | BillingHistory_create
  | DailyUsage_findFirst | DailyUsage_upsert
  | ReferralStats_update | ReferralStats_create
  | BillingHistory_deleteMany | Subscription_deleteMany
  | ReferralStats_delete | User_delete

type_synonym faults = "store_call \<Rightarrow> key \<Rightarrow> string option"

definition no_faults :: faults where
  "no_faults c k = None"

definition call :: "faults \<Rightarrow> store_call \<Rightarrow> key \<Rightarrow> 'a action \<Rightarrow> 'a action" where
  "call flt c k m = (case flt c k of Some msg \<Rightarrow> throw (StoreError msg) | None \<Rightarrow> m)"

subsection \<open>Calls of the store client\<close>

fun update_first :: "('a \<Rightarrow> bool) \<Rightarrow> ('a \<Rightarrow> 'a) \<Rightarrow> 'a list \<Rightarrow> 'a list" where
  "update_first P f [] = []"
| "update_first P f (x # xs) = (if P x then f x # xs else x # update_first P f xs)"

definition user_findUnique :: "faults \<Rightarrow> string \<Rightarrow> user option action" where
  "user_findUnique flt cid =
     call flt User_findUnique cid
       (\<lambda>db. return (find (\<lambda>u. clerkUserId u = cid) (users db)) db)"

definition plan_findFirst :: "faults \<Rightarrow> string \<Rightarrow> plan option action" where
  "plan_findFirst flt planCode =
     call flt Plan_findFirst planCode
       (\<lambda>db. return (find (\<lambda>p. p_id p = planCode \<or> p_name p = planCode) (plans db)) db)"

text \<open>
  \<open>include: { plan: true }\<close> joins the plan a subscription refers to. The relation is
  required; a row whose plan is missing makes the client reject the query.
\<close>

definition include_plan :: "subscription \<Rightarrow> (subscription \<times> plan) action" where
  "include_plan s db =
     (case find (\<lambda>p. p_id p = s_planId s) (plans db) of
        None \<Rightarrow> throw (StoreError ''Inconsistent query result: plan'') db
      | Some p \<Rightarrow> return (s, p) db)"

definition active_of :: "key \<Rightarrow> subscription \<Rightarrow> bool" where
  "active_of uid s = (s_userId s = uid \<and> status s = ''active'')"

text \<open>
  \<open>subscription.findFirst\<close> with \<open>where: { userId, status: 'active' }\<close>: with no
  \<open>include\<close> it returns the row alone (\<open>subscription_findFirst_row\<close>), with
  \<open>include: { plan: true }\<close> the row and its plan (\<open>subscription_findFirst\<close>).
\<close>

definition subscription_findFirst_row :: "faults \<Rightarrow> key \<Rightarrow> subscription option action" where
  "subscription_findFirst_row flt uid =
     call flt Subscription_findFirst uid
       (\<lambda>db. return (find (active_of uid) (subscriptions db)) db)"

definition subscription_findFirst ::
    "faults \<Rightarrow> key \<Rightarrow> (subscription \<times> plan) option action" where
  "subscription_findFirst flt uid =
     call flt Subscription_findFirst uid
       (\<lambda>db. case find (active_of uid) (subscriptions db) of
                None \<Rightarrow> return None db
              | Some s \<Rightarrow> await (include_plan s) (\<lambda>sp. return (Some sp)) db)"

text \<open>
  \<open>update\<close> addresses one row by a unique key and is rejected when there is no such row;
  it returns the row as written.
\<close>

definition subscription_update ::
    "faults \<Rightarrow> key \<Rightarrow> (subscription \<Rightarrow> subscription) \<Rightarrow> subscription action" where
  "subscription_update flt sid f =
     call flt Subscription_update sid
       (\<lambda>db. case find (\<lambda>s. s_id s = sid) (subscriptions db) of
                None \<Rightarrow> throw (StoreError ''Record to update not found'') db
              | Some s \<Rightarrow>
                  return (f s)
                    (db\<lparr>subscriptions := update_first (\<lambda>s. s_id s = sid) f (subscriptions db)\<rparr>))"

text \<open>\<open>create\<close> appends a row; the primary key of a subscription is unique.\<close>

definition subscription_create :: "faults \<Rightarrow> subscription \<Rightarrow> subscription action" where
  "subscription_create flt s =
     call flt Subscription_create (s_userId s)
       (\<lambda>db. if s_id s \<in> set (map s_id (subscriptions db))
              then throw (StoreError ''Unique constraint failed'') db
              else return s (db\<lparr>subscriptions := subscriptions db @ [s]\<rparr>))"

definition creditLedger_create :: "faults \<Rightarrow> credit_ledger \<Rightarrow> unit action" where
  "creditLedger_create flt l =
     call flt CreditLedger_create (l_subscriptionId l)
       (\<lambda>db. return () (db\<lparr>creditLedger := creditLedger db @ [l]\<rparr>))"

text \<open>
  \<open>creditLedger.aggregate\<close> with \<open>_sum: { amount: true }\<close>: the sum of the user's
  entries, \<open>null\<close> when there is none.
\<close>

definition creditLedger_aggregate :: "faults \<Rightarrow> key \<Rightarrow> int option action" where
  "creditLedger_aggregate flt uid =
     call flt CreditLedger_aggregate uid
       (\<lambda>db. let rows = filter (\<lambda>l. l_userId l = uid) (creditLedger db)
              in return (if rows = [] then None else Some (sum_list (map l_amount rows))) db)"

definition billingHistory_create :: "faults \<Rightarrow> billing_history \<Rightarrow> unit action" where
  "billingHistory_create flt b =
     call flt BillingHistory_create (b_subscriptionId b)
       (\<lambda>db. return () (db\<lparr>billingHistory := billingHistory db @ [b]\<rparr>))"

definition dailyUsage_findFirst :: "faults \<Rightarrow> key \<Rightarrow> date \<Rightarrow> daily_usage option action" where
  "dailyUsage_findFirst flt uid today =
     call flt DailyUsage_findFirst uid
       (\<lambda>db. return (find (\<lambda>d. d_userId d = uid \<and> d_date d = today) (dailyUsage db)) db)"

text \<open>\<open>dailyUsage.upsert\<close> on the unique pair of user and date.\<close>

definition dailyUsage_upsert ::
    "faults \<Rightarrow> key \<Rightarrow> date \<Rightarrow> (daily_usage \<Rightarrow> daily_usage) \<Rightarrow> daily_usage \<Rightarrow> unit action" where
  "dailyUsage_upsert flt uid today upd new =
     call flt DailyUsage_upsert uid
       (\<lambda>db. case find (\<lambda>d. d_userId d = uid \<and> d_date d = today) (dailyUsage db) of
                Some d \<Rightarrow>
                  return ()
                    (db\<lparr>dailyUsage :=
                          update_first (\<lambda>d. d_userId d = uid \<and> d_date d = today) upd
                            (dailyUsage db)\<rparr>)
              | None \<Rightarrow> return () (db\<lparr>dailyUsage := dailyUsage db @ [new]\<rparr>))"

definition referralStats_updateByUser ::
    "faults \<Rightarrow> key \<Rightarrow> (referral_stats \<Rightarrow> referral_stats) \<Rightarrow> unit action" where
  "referralStats_updateByUser flt uid f =
     call flt ReferralStats_update uid
       (\<lambda>db. case find (\<lambda>r. r_userId r = uid) (referralStats db) of
                None \<Rightarrow> throw (StoreError ''Record to update not found'') db
              | Some r \<Rightarrow>
                  return ()
                    (db\<lparr>referralStats :=
                          update_first (\<lambda>r. r_userId r = uid) f (referralStats db)\<rparr>))"

text \<open>\<open>x || 0\<close> on a nullable whole number.\<close>

definition or_zero :: "int option \<Rightarrow> int" where
  "or_zero v = (case v of None \<Rightarrow> 0 | Some n \<Rightarrow> n)"

section \<open>The subscription service\<close>

text \<open>
  The functions of \<open>SubscriptionService\<close>. Each one takes the faults of the store and
  the reading of the clock (\<open>new Date()\<close>; no time passes within one call). Its outer
  \<open>catch\<close> throws the error again under a prefix that names the operation; the error
  value is passed on as it is.
\<close>

record options =
  o_billingCycle :: "string option"
  o_amount :: "number option"
  o_currency :: "string option"

definition or_default :: "'a \<Rightarrow> 'a option \<Rightarrow> 'a" where
  "or_default d v = (case v of None \<Rightarrow> d | Some x \<Rightarrow> x)"

record confirm_result =
  cr_subscription :: subscription
  creditsGranted :: int

definition creditsToGrant :: "plan \<Rightarrow> int" where
  "creditsToGrant p = (if isDaily p then dailyCredits p else monthlyCredits p)"

definition periodMonths :: "string \<Rightarrow> nat" where
  "periodMonths cycle = (if cycle = ''yearly'' then 12 else 1)"

text \<open>
  \<open>confirmPayment\<close>. \<open>newId\<close> is the key the store generates should a subscription be
  created; the columns a \<open>create\<close> leaves out take their defaults (no cancellation date,
  the time of the write, null in the columns of the signup). \<open>confirmPayment_tx\<close> is the
  callback of the transaction and \<open>confirmPayment_write\<close> the part of it that follows
  its first \<open>await\<close>, the lookup of the active subscription.
\<close>

definition confirmPayment_write ::
    "faults \<Rightarrow> date \<Rightarrow> key \<Rightarrow> user \<Rightarrow> plan \<Rightarrow> date \<Rightarrow> string \<Rightarrow> string \<Rightarrow> number \<Rightarrow> string
       \<Rightarrow> (subscription \<times> plan) option \<Rightarrow> subscription action" where
  "confirmPayment_write flt now newId user plan paidAt externalPaymentId cycle amount currency
       existing =
     (let periodStart = paidAt;
          periodEnd = setMonth paidAt (getMonth paidAt + periodMonths cycle)
      in
      await (case existing of
               Some (old, old_plan) \<Rightarrow>
                 subscription_update flt (s_id old)
                   (\<lambda>s. s\<lparr>s_planId := p_id plan, billingCycle := cycle, status := ''active'',
                           currentPeriodStart := periodStart, currentPeriodEnd := periodEnd,
                           cancelAtPeriodEnd := False, canceledAt := None, updatedAt := now\<rparr>)
             | None \<Rightarrow>
                 subscription_create flt
                   \<lparr>s_id = newId, s_userId = u_id user, s_planId = p_id plan,
                    billingCycle = cycle, status = ''active'',
                    currentPeriodStart = periodStart, currentPeriodEnd = periodEnd,
                    cancelAtPeriodEnd = False, canceledAt = None, updatedAt = now,
                    stripeSubscriptionId = None, startDate = None, endDate = None,
                    s_remainingCredits = None\<rparr>)
        (\<lambda>subscription.
      await (creditLedger_create flt
               \<lparr>l_userId = u_id user, l_subscriptionId = s_id subscription,
                l_amount = creditsToGrant plan, l_type = ''granted'',
                l_description = ''Credits granted for '' @ p_name plan @ '' subscription''\<rparr>)
        (\<lambda>_.
      await (billingHistory_create flt
               \<lparr>b_userId = u_id user, b_subscriptionId = s_id subscription,
                b_amount = amount, b_currency = currency, b_status = ''completed'',
                paymentDate = paidAt, b_externalPaymentId = externalPaymentId\<rparr>)
        (\<lambda>_.
      await (if truthy (referredById user) \<and> amount > 0
             then (let referralEarning =
                         (if cycle = ''yearly''
                          then js_mul (priceYearly plan) (round_double (20 / 100))
                          else js_mul (priceMonthly plan) (round_double (20 / 100)))
                   in referralStats_updateByUser flt (the (referredById user))
                        (\<lambda>r. r\<lparr>totalPaidSubscribers := totalPaidSubscribers r + 1,
                                totalEarning := js_add (totalEarning r) referralEarning\<rparr>))
             else return ())
        (\<lambda>_.
      return subscription)))))"

definition confirmPayment_tx ::
    "faults \<Rightarrow> date \<Rightarrow> key \<Rightarrow> user \<Rightarrow> plan \<Rightarrow> date \<Rightarrow> string \<Rightarrow> string \<Rightarrow> number \<Rightarrow> string
       \<Rightarrow> subscription action" where
  "confirmPayment_tx flt now newId user plan paidAt externalPaymentId cycle amount currency =
     await (subscription_findFirst flt (u_id user))
       (confirmPayment_write flt now newId user plan paidAt externalPaymentId cycle amount
          currency)"

definition confirmPayment ::
    "faults \<Rightarrow> date \<Rightarrow> key \<Rightarrow> string \<Rightarrow> string \<Rightarrow> date option \<Rightarrow> string \<Rightarrow> options
       \<Rightarrow> confirm_result action" where
  "confirmPayment flt now newId userId planCode paidAt_opt externalPaymentId opts =
     (let paidAt = or_default now paidAt_opt;
          cycle = or_default ''monthly'' (o_billingCycle opts);
          amount = or_default 0 (o_amount opts);
          currency = or_default ''usd'' (o_currency opts)
      in
      await (user_findUnique flt userId) (\<lambda>found_user.
      case found_user of
        None \<Rightarrow> throw (UserNotFound userId)
      | Some user \<Rightarrow>
      await (plan_findFirst flt planCode) (\<lambda>found_plan.
      case found_plan of
        None \<Rightarrow> throw (PlanNotFound planCode)
      | Some plan \<Rightarrow>
      await (transaction
               (confirmPayment_tx flt now newId user plan paidAt externalPaymentId
                  cycle amount currency))
        (\<lambda>result.
      return \<lparr>cr_subscription = result, creditsGranted = creditsToGrant plan\<rparr>))))"

text \<open>\<open>cancelSubscription\<close>; its lookup of the active subscription includes nothing.\<close>

definition cancelSubscription :: "faults \<Rightarrow> date \<Rightarrow> string \<Rightarrow> subscription action" where
  "cancelSubscription flt now userId =
     await (user_findUnique flt userId) (\<lambda>found_user.
     case found_user of
       None \<Rightarrow> throw (UserNotFound userId)
     | Some user \<Rightarrow>
     await (subscription_findFirst_row flt (u_id user)) (\<lambda>found.
     case found of
       None \<Rightarrow> throw NoActiveSubscription
     | Some subscription \<Rightarrow>
     await (subscription_update flt (s_id subscription)
              (\<lambda>s. s\<lparr>cancelAtPeriodEnd := True, canceledAt := Some now, updatedAt := now\<rparr>))
       (\<lambda>updatedSubscription.
     return updatedSubscription)))"

text \<open>
  \<open>getSubscriptionDetails\<close>. The members the first \<open>return\<close> leaves out
  (\<open>dailyUsage\<close>, \<open>dailyLimit\<close>, \<open>recentCredits\<close>) are \<open>None\<close> and the empty list.
  The ledger is kept in the order of creation, so the ten most recent entries of a
  subscription are the first ten of its entries read backwards.
\<close>

record subscription_view =
  v_id :: key
  v_plan :: plan
  v_status :: string
  v_currentPeriodStart :: date
  v_currentPeriodEnd :: date
  v_cancelAtPeriodEnd :: bool
  v_billingCycle :: string

record details =
  det_subscription :: "subscription_view option"
  availableCredits :: int
  det_dailyUsage :: "int option"
  dailyLimit :: "int option"
  recentCredits :: "credit_ledger list"

definition include_creditLedger :: "subscription \<Rightarrow> credit_ledger list action" where
  "include_creditLedger s db =
     return (take 10 (rev (filter (\<lambda>l. l_subscriptionId l = s_id s) (creditLedger db)))) db"

definition getSubscriptionDetails :: "faults \<Rightarrow> date \<Rightarrow> string \<Rightarrow> details action" where
  "getSubscriptionDetails flt now userId =
     await (user_findUnique flt userId) (\<lambda>found_user.
     case found_user of
       None \<Rightarrow> throw (UserNotFound userId)
     | Some user \<Rightarrow>
     await (subscription_findFirst flt (u_id user)) (\<lambda>found.
     case found of
       None \<Rightarrow>
         return \<lparr>det_subscription = None, availableCredits = 0, det_dailyUsage = None,
                 dailyLimit = None, recentCredits = []\<rparr>
     | Some (subscription, sub_plan) \<Rightarrow>
     await (include_creditLedger subscription) (\<lambda>recent.
     await (creditLedger_aggregate flt (u_id user)) (\<lambda>creditSum.
     await (dailyUsage_findFirst flt (u_id user) (startOfDay now)) (\<lambda>todayUsage.
     return
       \<lparr>det_subscription =
          Some \<lparr>v_id = s_id subscription, v_plan = sub_plan, v_status = status subscription,
                v_currentPeriodStart = currentPeriodStart subscription,
                v_currentPeriodEnd = currentPeriodEnd subscription,
                v_cancelAtPeriodEnd = cancelAtPeriodEnd subscription,
                v_billingCycle = billingCycle subscription\<rparr>,
        availableCredits = or_zero creditSum,
        det_dailyUsage = Some (or_zero (map_option usageCount todayUsage)),
        dailyLimit = (if isDaily sub_plan then Some (dailyCredits sub_plan) else None),
        recentCredits = recent\<rparr>)))))"

text \<open>\<open>consumeCredits\<close>; \<open>consumeCredits_tx\<close> is the callback of its transaction.\<close>

record consume_result =
  creditsConsumed :: int
  remainingCredits :: int

definition consumeCredits_tx ::
    "faults \<Rightarrow> date \<Rightarrow> user \<Rightarrow> subscription \<Rightarrow> plan \<Rightarrow> int \<Rightarrow> string \<Rightarrow> int
       \<Rightarrow> consume_result action" where
  "consumeCredits_tx flt now user subscription sub_plan creditsToConsume description available =
     await (creditLedger_create flt
              \<lparr>l_userId = u_id user, l_subscriptionId = s_id subscription,
               l_amount = - creditsToConsume, l_type = ''consumed'',
               l_description = description\<rparr>)
       (\<lambda>_.
     await (if isDaily sub_plan
            then dailyUsage_upsert flt (u_id user) (startOfDay now)
                   (\<lambda>d. d\<lparr>usageCount := usageCount d + creditsToConsume\<rparr>)
                   \<lparr>d_userId = u_id user, d_subscriptionId = s_id subscription,
                    d_date = startOfDay now, usageCount = creditsToConsume\<rparr>
            else return ())
       (\<lambda>_.
     return \<lparr>creditsConsumed = creditsToConsume,
             remainingCredits = available - creditsToConsume\<rparr>))"

definition consumeCredits ::
    "faults \<Rightarrow> date \<Rightarrow> string \<Rightarrow> int \<Rightarrow> string \<Rightarrow> consume_result action" where
  "consumeCredits flt now userId creditsToConsume description =
     await (user_findUnique flt userId) (\<lambda>found_user.
     case found_user of
       None \<Rightarrow> throw (UserNotFound userId)
     | Some user \<Rightarrow>
     await (subscription_findFirst flt (u_id user)) (\<lambda>found.
     case found of
       None \<Rightarrow> throw NoActiveSubscription
     | Some (subscription, sub_plan) \<Rightarrow>
     await (if isDaily sub_plan
            then await (dailyUsage_findFirst flt (u_id user) (startOfDay now)) (\<lambda>todayUsage.
                   (let currentUsage = or_zero (map_option usageCount todayUsage)
                    in if currentUsage + creditsToConsume > dailyCredits sub_plan
                       then throw (DailyLimitExceeded currentUsage (dailyCredits sub_plan))
                       else return ()))
            else return ())
       (\<lambda>_.
     await (creditLedger_aggregate flt (u_id user)) (\<lambda>creditSum.
     (let available = or_zero creditSum
      in if available < creditsToConsume
         then throw (InsufficientCredits available creditsToConsume)
         else
           await (transaction
                    (consumeCredits_tx flt now user subscription sub_plan creditsToConsume
                       description available))
             (\<lambda>result.
           return result))))))"

text \<open>
  \<open>renewDueSubscriptions\<close>. The query joins each due subscription with its plan and
  its user, both required relations. The loop runs over that snapshot; \<open>try_catch\<close> is
  the \<open>try\<close> around the body of the loop, \<open>renew_tx\<close> the callback of its transaction.
\<close>

definition is_due :: "date \<Rightarrow> subscription \<Rightarrow> bool" where
  "is_due now s =
     (status s = ''active'' \<and> cancelAtPeriodEnd s = False \<and> date_le (currentPeriodEnd s) now)"

fun include_plan_user ::
    "store \<Rightarrow> subscription list \<Rightarrow> error + (subscription \<times> plan \<times> user) list" where
  "include_plan_user db [] = Inr []"
| "include_plan_user db (s # ss) =
     (case find (\<lambda>p. p_id p = s_planId s) (plans db) of
        None \<Rightarrow> Inl (StoreError ''Inconsistent query result: plan'')
      | Some p \<Rightarrow>
          (case find (\<lambda>u. u_id u = s_userId s) (users db) of
             None \<Rightarrow> Inl (StoreError ''Inconsistent query result: user'')
           | Some u \<Rightarrow>
               (case include_plan_user db ss of
                  Inl e \<Rightarrow> Inl e
                | Inr rest \<Rightarrow> Inr ((s, p, u) # rest))))"

definition subscription_findMany_due ::
    "faults \<Rightarrow> date \<Rightarrow> (subscription \<times> plan \<times> user) list action" where
  "subscription_findMany_due flt now =
     call flt Subscription_findMany []
       (\<lambda>db. (include_plan_user db (filter (is_due now) (subscriptions db)), db))"

definition try_catch :: "'a action \<Rightarrow> (error \<Rightarrow> 'a action) \<Rightarrow> 'a action" where
  "try_catch m h db = (case m db of (Inl e, db') \<Rightarrow> h e db' | (Inr a, db') \<Rightarrow> (Inr a, db'))"

datatype renewal =
    Renewed key string date int
  | Failed key string error

fun success :: "renewal \<Rightarrow> bool" where
  "success (Renewed sid uid newPeriodEnd granted) = True"
| "success (Failed sid uid e) = False"

fun subscriptionId :: "renewal \<Rightarrow> key" where
  "subscriptionId (Renewed sid uid newPeriodEnd granted) = sid"
| "subscriptionId (Failed sid uid e) = sid"

record renewal_summary =
  renewed :: nat
  failed :: nat
  results :: "renewal list"

definition newPeriodEnd :: "subscription \<Rightarrow> date" where
  "newPeriodEnd s =
     setMonth (currentPeriodEnd s) (getMonth (currentPeriodEnd s) + periodMonths (billingCycle s))"

definition renew_tx ::
    "faults \<Rightarrow> date \<Rightarrow> subscription \<Rightarrow> plan \<Rightarrow> subscription action" where
  "renew_tx flt now subscription sub_plan =
     await (subscription_update flt (s_id subscription)
              (\<lambda>s. s\<lparr>currentPeriodStart := currentPeriodEnd subscription,
                      currentPeriodEnd := newPeriodEnd subscription,
                      updatedAt := now\<rparr>))
       (\<lambda>updated.
     await (creditLedger_create flt
              \<lparr>l_userId = s_userId subscription, l_subscriptionId = s_id subscription,
               l_amount = creditsToGrant sub_plan, l_type = ''granted'',
               l_description =
                 ''Credits granted for '' @ billingCycle subscription @ '' renewal''\<rparr>)
       (\<lambda>_.
     return updated))"

definition renew_one :: "faults \<Rightarrow> date \<Rightarrow> subscription \<times> plan \<times> user \<Rightarrow> renewal action" where
  "renew_one flt now item =
     (case item of (subscription, sub_plan, sub_user) \<Rightarrow>
      try_catch
        (await (transaction (renew_tx flt now subscription sub_plan))
           (\<lambda>updatedSubscription.
         return (Renewed (s_id subscription) (clerkUserId sub_user)
                   (newPeriodEnd subscription) (creditsToGrant sub_plan))))
        (\<lambda>e. return (Failed (s_id subscription) (clerkUserId sub_user) e)))"

fun renew_loop ::
    "faults \<Rightarrow> date \<Rightarrow> (subscription \<times> plan \<times> user) list \<Rightarrow> renewal list
       \<Rightarrow> renewal list action" where
  "renew_loop flt now [] renewalResults = return renewalResults"
| "renew_loop flt now (item # rest) renewalResults =
     await (renew_one flt now item) (\<lambda>r. renew_loop flt now rest (renewalResults @ [r]))"

definition renewDueSubscriptions :: "faults \<Rightarrow> date \<Rightarrow> renewal_summary action" where
  "renewDueSubscriptions flt now =
     await (subscription_findMany_due flt now) (\<lambda>dueSubscriptions.
     await (renew_loop flt now dueSubscriptions []) (\<lambda>renewalResults.
     return \<lparr>renewed = length (filter success renewalResults),
             failed = length (filter (\<lambda>r. \<not> success r) renewalResults),
             results = renewalResults\<rparr>))"

section \<open>The controllers\<close>

text \<open>
  A controller answers with a status code, a message and, when it has one, a payload or
  the error it caught. A member of a request body may be absent; \<open>!x\<close> holds of an
  absent string and of the empty one.
\<close>

record 'a response =
  http_status :: nat
  message :: string
  payload :: "'a option"
  caught :: "error option"

fun includes_str :: "string \<Rightarrow> string \<Rightarrow> bool" where
  "includes_str [] t = (t = [])"
| "includes_str (c # cs) t = (take (length t) (c # cs) = t \<or> includes_str cs t)"

subsection \<open>\<open>POST /api/usage/consume\<close>\<close>

text \<open>
  The \<open>credits\<close> member of the body is absent, a number, or a value of another type.
  The numbers of credit requests are whole numbers, as the amounts of the ledger are.
\<close>

datatype js_value = Undefined | Number int | NotANumber

record consume_request =
  req_userId :: "string option"
  req_credits :: js_value
  req_description :: "string option"

text \<open>
  The \<open>catch\<close> of the controller chooses the status by the phrases the message of the
  error includes; the errors of the service carry these phrases by their kind.
\<close>

definition consume_error_status :: "error \<Rightarrow> nat \<times> string" where
  "consume_error_status e =
     (case e of
        UserNotFound uid \<Rightarrow> (404, ''User not found'')
      | NoActiveSubscription \<Rightarrow> (400, ''No active subscription found'')
      | InsufficientCredits a r \<Rightarrow> (400, ''Credit limit exceeded'')
      | DailyLimitExceeded u l \<Rightarrow> (400, ''Credit limit exceeded'')
      | PlanNotFound c \<Rightarrow> (500, ''Failed to consume credits'')
      | StoreError msg \<Rightarrow>
          (if includes_str msg ''User not found'' then (404, ''User not found'')
           else if includes_str msg ''No active subscription''
           then (400, ''No active subscription found'')
           else if includes_str msg ''Insufficient credits'' \<or> includes_str msg ''Daily limit exceeded''
           then (400, ''Credit limit exceeded'')
           else (500, ''Failed to consume credits'')))"

definition reply :: "'a response \<Rightarrow> store \<Rightarrow> 'a response \<times> store" where
  "reply r db = (r, db)"

definition consumeCredits_controller ::
    "faults \<Rightarrow> date \<Rightarrow> consume_request \<Rightarrow> store \<Rightarrow> consume_result response \<times> store" where
  "consumeCredits_controller flt now body db =
     (let userId = req_userId body;
          credits = (case req_credits body of Undefined \<Rightarrow> Number 1 | v \<Rightarrow> v);
          description = or_default ''API usage'' (req_description body)
      in if \<not> truthy userId
         then reply \<lparr>http_status = 400,
                     message = ''Missing required field: userId is required'',
                     payload = None, caught = None\<rparr> db
         else
           (case credits of
              Number n \<Rightarrow>
                if n \<le> 0
                then reply \<lparr>http_status = 400, message = ''Credits must be a positive number'',
                            payload = None, caught = None\<rparr> db
                else
                  (case consumeCredits flt now (the userId) n description db of
                     (Inr result, db') \<Rightarrow>
                       reply \<lparr>http_status = 200, message = ''Credits consumed successfully'',
                              payload = Some result, caught = None\<rparr> db'
                   | (Inl e, db') \<Rightarrow>
                       reply \<lparr>http_status = fst (consume_error_status e),
                              message = snd (consume_error_status e),
                              payload = None, caught = Some e\<rparr> db')
            | other \<Rightarrow>
                reply \<lparr>http_status = 400, message = ''Credits must be a positive number'',
                       payload = None, caught = None\<rparr> db))"

subsection \<open>\<open>POST /api/user/setupUser\<close>\<close>











subsection \<open>\<open>DELETE /api/user/deleteUser\<close>\<close>









section \<open>Requests in parallel\<close>








section \<open>Observations and example data\<close>

text \<open>
  The available balance of a user is the sum of the user's ledger entries; today's usage is
  the count of the user's usage row of the day, zero without one.
\<close>

definition availableBalance :: "store \<Rightarrow> key \<Rightarrow> int" where
  "availableBalance db uid = sum_list (map l_amount (filter (\<lambda>l. l_userId l = uid) (creditLedger db)))"

definition usageToday :: "store \<Rightarrow> key \<Rightarrow> date \<Rightarrow> int" where
  "usageToday db uid now =
     or_zero (map_option usageCount
       (find (\<lambda>d. d_userId d = uid \<and> d_date d = startOfDay now) (dailyUsage db)))"

text \<open>
  The number of active subscriptions of a user, and the condition of the store that the
  operations maintain: the keys of the subscriptions are distinct, every subscription
  belongs to a user of the store, and no user has two active subscriptions.
\<close>

definition active_count :: "store \<Rightarrow> key \<Rightarrow> nat" where
  "active_count db uid = length (filter (active_of uid) (subscriptions db))"

definition store_ok :: "store \<Rightarrow> bool" where
  "store_ok db =
     (distinct (map s_id (subscriptions db)) \<and>
      (\<forall>s \<in> set (subscriptions db). s_userId s \<in> set (map u_id (users db))) \<and>
      (\<forall>s \<in> set (subscriptions db). active_count db (s_userId s) \<le> 1))"

text \<open>
  The condition reads only the key, the owner and the status of each subscription;
  \<open>keys_ok\<close> is the condition on these triples and the keys of the users.
\<close>

definition sub_key :: "subscription \<Rightarrow> key \<times> key \<times> string" where
  "sub_key s = (s_id s, s_userId s, status s)"

definition keys_ok :: "(key \<times> key \<times> string) list \<Rightarrow> key list \<Rightarrow> bool" where
  "keys_ok ks us =
     (distinct (map fst ks) \<and>
      (\<forall>k \<in> set ks. fst (snd k) \<in> set us) \<and>
      (\<forall>k \<in> set ks.
         length (filter (\<lambda>k'. fst (snd k') = fst (snd k) \<and> snd (snd k') = ''active'') ks) \<le> 1))"

text \<open>The referral row of a user.\<close>

definition referralOf :: "store \<Rightarrow> key \<Rightarrow> referral_stats option" where
  "referralOf db uid = find (\<lambda>r. r_userId r = uid) (referralStats db)"

text \<open>
  The rows that a confirmed payment writes: the ledger entry of the grant, the billing
  record, the subscription as updated in place or as created, and the referral row of
  the referrer as credited.
\<close>

definition granted_entry :: "user \<Rightarrow> plan \<Rightarrow> key \<Rightarrow> credit_ledger" where
  "granted_entry u p sid =
     \<lparr>l_userId = u_id u, l_subscriptionId = sid, l_amount = creditsToGrant p,
      l_type = ''granted'',
      l_description = ''Credits granted for '' @ p_name p @ '' subscription''\<rparr>"

definition billing_record ::
    "user \<Rightarrow> key \<Rightarrow> date \<Rightarrow> date option \<Rightarrow> string \<Rightarrow> options \<Rightarrow> billing_history" where
  "billing_record u sid now paidAt ext opts =
     \<lparr>b_userId = u_id u, b_subscriptionId = sid, b_amount = or_default 0 (o_amount opts),
      b_currency = or_default ''usd'' (o_currency opts), b_status = ''completed'',
      paymentDate = or_default now paidAt, b_externalPaymentId = ext\<rparr>"

definition activated :: "plan \<Rightarrow> date \<Rightarrow> date option \<Rightarrow> options \<Rightarrow> subscription \<Rightarrow> subscription" where
  "activated p now paidAt opts s =
     s\<lparr>s_planId := p_id p, billingCycle := or_default ''monthly'' (o_billingCycle opts),
       status := ''active'', currentPeriodStart := or_default now paidAt,
       currentPeriodEnd :=
         setMonth (or_default now paidAt)
           (getMonth (or_default now paidAt)
              + periodMonths (or_default ''monthly'' (o_billingCycle opts))),
       cancelAtPeriodEnd := False, canceledAt := None, updatedAt := now\<rparr>"

definition created :: "key \<Rightarrow> user \<Rightarrow> plan \<Rightarrow> date \<Rightarrow> date option \<Rightarrow> options \<Rightarrow> subscription" where
  "created newId u p now paidAt opts =
     \<lparr>s_id = newId, s_userId = u_id u, s_planId = p_id p,
      billingCycle = or_default ''monthly'' (o_billingCycle opts), status = ''active'',
      currentPeriodStart = or_default now paidAt,
      currentPeriodEnd =
        setMonth (or_default now paidAt)
          (getMonth (or_default now paidAt)
             + periodMonths (or_default ''monthly'' (o_billingCycle opts))),
      cancelAtPeriodEnd = False, canceledAt = None, updatedAt = now,
      stripeSubscriptionId = None, startDate = None, endDate = None,
      s_remainingCredits = None\<rparr>"

definition referralEarning :: "plan \<Rightarrow> options \<Rightarrow> number" where
  "referralEarning p opts =
     js_mul (if or_default ''monthly'' (o_billingCycle opts) = ''yearly''
             then priceYearly p else priceMonthly p)
       (round_double (20 / 100))"

definition credited :: "plan \<Rightarrow> options \<Rightarrow> referral_stats \<Rightarrow> referral_stats" where
  "credited p opts r =
     r\<lparr>totalPaidSubscribers := totalPaidSubscribers r + 1,
       totalEarning := js_add (totalEarning r) (referralEarning p opts)\<rparr>"


text \<open>The subscription as a cancellation request leaves it.\<close>

definition canceled :: "date \<Rightarrow> subscription \<Rightarrow> subscription" where
  "canceled now s = s\<lparr>cancelAtPeriodEnd := True, canceledAt := Some now, updatedAt := now\<rparr>"

text \<open>The rows that a consumption writes.\<close>

definition consumed_entry :: "key \<Rightarrow> key \<Rightarrow> int \<Rightarrow> string \<Rightarrow> credit_ledger" where
  "consumed_entry uid sid n description =
     \<lparr>l_userId = uid, l_subscriptionId = sid, l_amount = - n, l_type = ''consumed'',
      l_description = description\<rparr>"

definition usage_counted :: "store \<Rightarrow> key \<Rightarrow> key \<Rightarrow> date \<Rightarrow> int \<Rightarrow> daily_usage list" where
  "usage_counted db uid sid now n =
     (case find (\<lambda>d. d_userId d = uid \<and> d_date d = startOfDay now) (dailyUsage db) of
        Some d \<Rightarrow>
          update_first (\<lambda>d. d_userId d = uid \<and> d_date d = startOfDay now)
            (\<lambda>d. d\<lparr>usageCount := usageCount d + n\<rparr>) (dailyUsage db)
      | None \<Rightarrow>
          dailyUsage db @ [\<lparr>d_userId = uid, d_subscriptionId = sid, d_date = startOfDay now,
                            usageCount = n\<rparr>])"

text \<open>
  The renewal of one due subscription: the message with which the store rejects its
  transaction, if it does; the row with its period advanced; the ledger entry of the grant;
  the entry of the result list; and the step that the loop makes on a row of the table.
\<close>

definition item_fault :: "faults \<Rightarrow> subscription \<Rightarrow> string option" where
  "item_fault flt s =
     (case flt Subscription_update (s_id s) of
        Some msg \<Rightarrow> Some msg
      | None \<Rightarrow> flt CreditLedger_create (s_id s))"

definition extended :: "date \<Rightarrow> subscription \<Rightarrow> subscription" where
  "extended now s =
     s\<lparr>currentPeriodStart := currentPeriodEnd s, currentPeriodEnd := newPeriodEnd s,
       updatedAt := now\<rparr>"

definition renewal_grant :: "subscription \<times> plan \<times> user \<Rightarrow> credit_ledger" where
  "renewal_grant item =
     (case item of (s, p, u) \<Rightarrow>
        \<lparr>l_userId = s_userId s, l_subscriptionId = s_id s, l_amount = creditsToGrant p,
         l_type = ''granted'',
         l_description = ''Credits granted for '' @ billingCycle s @ '' renewal''\<rparr>)"

definition renewal_of :: "faults \<Rightarrow> subscription \<times> plan \<times> user \<Rightarrow> renewal" where
  "renewal_of flt item =
     (case item of (s, p, u) \<Rightarrow>
        (case item_fault flt s of
           Some msg \<Rightarrow> Failed (s_id s) (clerkUserId u) (StoreError msg)
         | None \<Rightarrow> Renewed (s_id s) (clerkUserId u) (newPeriodEnd s) (creditsToGrant p)))"

definition renew_step :: "faults \<Rightarrow> date \<Rightarrow> subscription \<Rightarrow> subscription \<Rightarrow> subscription" where
  "renew_step flt now s t =
     (if item_fault flt s = None \<and> s_id t = s_id s
      then t\<lparr>currentPeriodStart := currentPeriodEnd s, currentPeriodEnd := newPeriodEnd s,
             updatedAt := now\<rparr>
      else t)"

text \<open>
  An action reads when it leaves every store as it is; it is all-or-nothing when a run that
  ends in an error leaves the store as it was; it preserves a condition of the store when
  the condition holds after every run that starts where it holds.
\<close>

definition reads :: "'a action \<Rightarrow> bool" where
  "reads m = (\<forall>db. snd (m db) = db)"

definition all_or_nothing :: "'a action \<Rightarrow> bool" where
  "all_or_nothing m = (\<forall>db e. fst (m db) = Inl e \<longrightarrow> snd (m db) = db)"

definition preserves :: "(store \<Rightarrow> bool) \<Rightarrow> 'a action \<Rightarrow> bool" where
  "preserves I m = (\<forall>db. I db \<longrightarrow> I (snd (m db)))"

text \<open>
  The plans of the deployment guide (\<open>Free\<close>, \<open>Pro\<close> at 9.99 a month with 25 daily
  credits, \<open>Premium\<close> at 19.99 with 1000 monthly credits), two users of whom the second
  was referred by the first, and a few instants.
\<close>

definition free_plan :: plan where
  "free_plan = \<lparr>p_id = ''free-plan-id'', p_name = ''Free'', priceMonthly = 0, priceYearly = 0,
                dailyCredits = 0, monthlyCredits = 2, isDaily = False,
                p_description = ''Free trial with 2 credits''\<rparr>"

definition pro_plan :: plan where
  "pro_plan = \<lparr>p_id = ''pro-plan-id'', p_name = ''Pro'',
               priceMonthly = round_double (999 / 100), priceYearly = round_double (9999 / 100),
               dailyCredits = 25, monthlyCredits = 0, isDaily = True,
               p_description = ''Pro plan with 25 daily searches''\<rparr>"

definition premium_plan :: plan where
  "premium_plan = \<lparr>p_id = ''premium-plan-id'', p_name = ''Premium'',
                   priceMonthly = round_double (1999 / 100),
                   priceYearly = round_double (19999 / 100),
                   dailyCredits = 0, monthlyCredits = 1000, isDaily = False,
                   p_description = ''Premium plan with 1000 monthly credits''\<rparr>"

definition alice :: user where
  "alice = \<lparr>u_id = ''u1'', clerkUserId = ''clerk_alice'', email = ''alice@example.org'',
            u_name = ''Alice'', referredById = None\<rparr>"

definition bob :: user where
  "bob = \<lparr>u_id = ''u2'', clerkUserId = ''clerk_bob'', email = ''bob@example.org'',
          u_name = ''Bob'', referredById = Some ''u1''\<rparr>"

definition on_day :: "int \<Rightarrow> nat \<Rightarrow> nat \<Rightarrow> date" where
  "on_day y m d = \<lparr>year = y, month = m, day = d, msec = 0\<rparr>"

definition ledger_only :: store where
  "ledger_only =
     \<lparr>users = [alice], plans = [free_plan, pro_plan, premium_plan], subscriptions = [],
      creditLedger = [\<lparr>l_userId = ''u1'', l_subscriptionId = ''s0'', l_amount = 7,
                       l_type = ''granted'', l_description = ''Credits granted''\<rparr>],
      billingHistory = [], dailyUsage = [], referralStats = []\<rparr>"

definition aggregate_down :: faults where
  "aggregate_down c k = (if c = CreditLedger_aggregate then Some ''Connection lost'' else None)"

definition shop :: store where
  "shop =
     \<lparr>users = [alice, bob], plans = [free_plan, pro_plan, premium_plan],
      subscriptions =
        [\<lparr>s_id = ''s1'', s_userId = ''u2'', s_planId = ''free-plan-id'',
          billingCycle = ''monthly'', status = ''active'',
          currentPeriodStart = on_day 2024 0 31, currentPeriodEnd = on_day 2024 2 2,
          cancelAtPeriodEnd = True, canceledAt = Some (on_day 2024 1 10),
          updatedAt = on_day 2024 1 10,
          stripeSubscriptionId = None, startDate = None, endDate = None,
          s_remainingCredits = None\<rparr>],
      creditLedger = [\<lparr>l_userId = ''u2'', l_subscriptionId = ''s1'', l_amount = 2,
                       l_type = ''granted'', l_description = ''Credits granted''\<rparr>],
      billingHistory = [], dailyUsage = [],
      referralStats =
        [\<lparr>r_userId = ''u1'', referenceId = ''AURA-REF-alice000'', totalUsersSigned = 1,
          totalPaidSubscribers = 0, totalEarning = 0\<rparr>,
         \<lparr>r_userId = ''u2'', referenceId = ''AURA-REF-bob00000'', totalUsersSigned = 0,
          totalPaidSubscribers = 0, totalEarning = 0\<rparr>]\<rparr>"

definition monthly_pro :: options where
  "monthly_pro = \<lparr>o_billingCycle = Some ''monthly'', o_amount = Some (round_double (999 / 100)),
                  o_currency = Some ''usd''\<rparr>"

definition rejecting :: "store_call \<Rightarrow> faults" where
  "rejecting c c' k = (if c' = c then Some ''Connection lost'' else None)"

definition daily_shop :: store where
  "daily_shop =
     \<lparr>users = [alice, bob], plans = [free_plan, pro_plan, premium_plan],
      subscriptions =
        [\<lparr>s_id = ''s3'', s_userId = ''u1'', s_planId = ''pro-plan-id'',
          billingCycle = ''monthly'', status = ''active'',
          currentPeriodStart = on_day 2024 2 1, currentPeriodEnd = on_day 2024 3 1,
          cancelAtPeriodEnd = False, canceledAt = None, updatedAt = on_day 2024 2 1,
          stripeSubscriptionId = None, startDate = None, endDate = None,
          s_remainingCredits = None\<rparr>],
      creditLedger =
        [\<lparr>l_userId = ''u1'', l_subscriptionId = ''s3'', l_amount = 25,
          l_type = ''granted'', l_description = ''Credits granted for Pro subscription''\<rparr>,
         \<lparr>l_userId = ''u1'', l_subscriptionId = ''s3'', l_amount = - 21,
          l_type = ''consumed'', l_description = ''API usage''\<rparr>],
      billingHistory = [],
      dailyUsage = [\<lparr>d_userId = ''u1'', d_subscriptionId = ''s3'', d_date = on_day 2024 2 15,
                     usageCount = 20\<rparr>],
      referralStats = []\<rparr>"

definition noon :: date where
  "noon = \<lparr>year = 2024, month = 2, day = 15, msec = 43200000\<rparr>"

definition monthly_due :: subscription where
  "monthly_due =
     \<lparr>s_id = ''s3'', s_userId = ''u1'', s_planId = ''pro-plan-id'',
      billingCycle = ''monthly'', status = ''active'',
      currentPeriodStart = on_day 2024 0 31, currentPeriodEnd = on_day 2024 2 2,
      cancelAtPeriodEnd = False, canceledAt = None, updatedAt = on_day 2024 0 31,
      stripeSubscriptionId = None, startDate = None, endDate = None,
      s_remainingCredits = None\<rparr>"

definition yearly_due :: subscription where
  "yearly_due =
     \<lparr>s_id = ''s4'', s_userId = ''u2'', s_planId = ''premium-plan-id'',
      billingCycle = ''yearly'', status = ''active'',
      currentPeriodStart = on_day 2023 2 10, currentPeriodEnd = on_day 2024 2 10,
      cancelAtPeriodEnd = False, canceledAt = None, updatedAt = on_day 2023 2 10,
      stripeSubscriptionId = None, startDate = None, endDate = None,
      s_remainingCredits = None\<rparr>"

definition lapsed :: subscription where
  "lapsed =
     \<lparr>s_id = ''s5'', s_userId = ''u2'', s_planId = ''free-plan-id'',
      billingCycle = ''monthly'', status = ''expired'',
      currentPeriodStart = on_day 2023 0 10, currentPeriodEnd = on_day 2023 1 10,
      cancelAtPeriodEnd = False, canceledAt = None, updatedAt = on_day 2023 0 10,
      stripeSubscriptionId = None, startDate = None, endDate = None,
      s_remainingCredits = None\<rparr>"

definition renew_shop :: store where
  "renew_shop =
     \<lparr>users = [alice, bob], plans = [free_plan, pro_plan, premium_plan],
      subscriptions = [monthly_due, yearly_due, lapsed],
      creditLedger = [], billingHistory = [], dailyUsage = [], referralStats = []\<rparr>"

definition rejecting_for :: "store_call \<Rightarrow> key \<Rightarrow> faults" where
  "rejecting_for c k c' k' = (if c' = c \<and> k' = k then Some ''Connection lost'' else None)"

definition overdue_shop :: store where
  "overdue_shop =
     \<lparr>users = [alice], plans = [free_plan, pro_plan, premium_plan],
      subscriptions =
        [\<lparr>s_id = ''s3'', s_userId = ''u1'', s_planId = ''pro-plan-id'',
          billingCycle = ''monthly'', status = ''active'',
          currentPeriodStart = on_day 2023 11 1, currentPeriodEnd = on_day 2024 0 1,
          cancelAtPeriodEnd = False, canceledAt = None, updatedAt = on_day 2023 11 1,
          stripeSubscriptionId = None, startDate = None, endDate = None,
          s_remainingCredits = None\<rparr>],
      creditLedger = [], billingHistory = [], dailyUsage = [], referralStats = []\<rparr>"








section \<open>Properties\<close>

lemmas action_defs = await_def return_def throw_def call_def transaction_def try_catch_def

subsection \<open>Calendar months\<close>

text \<open>
  \<open>setMonth\<close> keeps the day of the month when the target month has it, which every
  month has up to the 28th; a later day may run on into the month after (the 31st of
  January plus one month is the 2nd of March in a leap year, the 3rd otherwise).
\<close>

lemma days_in_month_ge_28: "28 \<le> days_in_month y m"
  by (simp add: days_in_month_def)

lemma setMonth_same_day:
  assumes "day t \<le> 28"
  shows "setMonth t (getMonth t + k) =
           t\<lparr>year := year t + int ((month t + k) div 12), month := (month t + k) mod 12\<rparr>"
proof -
  let ?y = "year t + int ((month t + k) div 12)" and ?m = "(month t + k) mod 12"
  have "\<not> days_in_month ?y ?m < day t"
    using assms days_in_month_ge_28 [of ?y ?m] by simp
  then have "carry_days ?y ?m (day t) = (?y, ?m, day t)"
    by (simp add: carry_days.simps)
  then show ?thesis
    by (simp add: setMonth_def getMonth_def)
qed

lemma setMonth_end_of_January:
  "setMonth (on_day 2024 0 31) (getMonth (on_day 2024 0 31) + 1) = on_day 2024 2 2 \<and>
   setMonth (on_day 2023 0 31) (getMonth (on_day 2023 0 31) + 1) = on_day 2023 2 3"
  by code_simp

subsection \<open>Successful runs\<close>

lemma return_Inr: "return a db = (Inr b, db') \<longleftrightarrow> b = a \<and> db' = db"
  by (auto simp: return_def)

lemma throw_Inr: "throw e db = (Inr b, db') \<longleftrightarrow> False"
  by (simp add: throw_def)

lemma await_Inr:
  "await m k db = (Inr b, db') \<longleftrightarrow> (\<exists>a db1. m db = (Inr a, db1) \<and> k a db1 = (Inr b, db'))"
  by (cases "m db") (auto simp: await_def split: sum.splits)

lemma transaction_Inr: "transaction body db = (Inr a, db') \<longleftrightarrow> body db = (Inr a, db')"
  by (cases "body db") (auto simp: transaction_def split: sum.splits)

lemma call_Inr:
  "call flt c k m db = (Inr a, db') \<longleftrightarrow> flt c k = None \<and> m db = (Inr a, db')"
  by (simp add: call_def throw_def split: option.splits)

lemmas Inr_simps = return_Inr throw_Inr await_Inr transaction_Inr call_Inr

lemma user_findUnique_Inr:
  "user_findUnique flt cid db = (Inr a, db') \<longleftrightarrow>
     flt User_findUnique cid = None \<and> a = find (\<lambda>u. clerkUserId u = cid) (users db) \<and> db' = db"
  by (auto simp: user_findUnique_def Inr_simps)

lemma plan_findFirst_Inr:
  "plan_findFirst flt c db = (Inr a, db') \<longleftrightarrow>
     flt Plan_findFirst c = None \<and>
     a = find (\<lambda>p. p_id p = c \<or> p_name p = c) (plans db) \<and> db' = db"
  by (auto simp: plan_findFirst_def Inr_simps)

lemma subscription_findFirst_Inr:
  "subscription_findFirst flt uid db = (Inr a, db') \<longleftrightarrow>
     flt Subscription_findFirst uid = None \<and> db' = db \<and>
     (case find (active_of uid) (subscriptions db) of
        None \<Rightarrow> a = None
      | Some s \<Rightarrow> (\<exists>p. find (\<lambda>p. p_id p = s_planId s) (plans db) = Some p \<and> a = Some (s, p)))"
  by (auto simp: subscription_findFirst_def include_plan_def Inr_simps split: option.splits)

lemma subscription_update_Inr:
  "subscription_update flt sid f db = (Inr a, db') \<longleftrightarrow>
     flt Subscription_update sid = None \<and>
     (\<exists>s. find (\<lambda>s. s_id s = sid) (subscriptions db) = Some s \<and> a = f s) \<and>
     db' = db\<lparr>subscriptions := update_first (\<lambda>s. s_id s = sid) f (subscriptions db)\<rparr>"
  by (auto simp: subscription_update_def Inr_simps split: option.splits)

lemma subscription_create_Inr:
  "subscription_create flt s db = (Inr a, db') \<longleftrightarrow>
     flt Subscription_create (s_userId s) = None \<and> s_id s \<notin> set (map s_id (subscriptions db)) \<and>
     a = s \<and> db' = db\<lparr>subscriptions := subscriptions db @ [s]\<rparr>"
  by (auto simp: subscription_create_def Inr_simps)

lemma creditLedger_create_Inr:
  "creditLedger_create flt l db = (Inr a, db') \<longleftrightarrow>
     flt CreditLedger_create (l_subscriptionId l) = None \<and>
     db' = db\<lparr>creditLedger := creditLedger db @ [l]\<rparr>"
  by (auto simp: creditLedger_create_def Inr_simps)

lemma billingHistory_create_Inr:
  "billingHistory_create flt b db = (Inr a, db') \<longleftrightarrow>
     flt BillingHistory_create (b_subscriptionId b) = None \<and>
     db' = db\<lparr>billingHistory := billingHistory db @ [b]\<rparr>"
  by (auto simp: billingHistory_create_def Inr_simps)

lemma referralStats_updateByUser_Inr:
  "referralStats_updateByUser flt uid f db = (Inr a, db') \<longleftrightarrow>
     flt ReferralStats_update uid = None \<and>
     find (\<lambda>r. r_userId r = uid) (referralStats db) \<noteq> None \<and>
     db' = db\<lparr>referralStats := update_first (\<lambda>r. r_userId r = uid) f (referralStats db)\<rparr>"
  by (auto simp: referralStats_updateByUser_def Inr_simps split: option.splits)

lemmas call_Inr_simps = user_findUnique_Inr plan_findFirst_Inr subscription_findFirst_Inr
  subscription_update_Inr subscription_create_Inr creditLedger_create_Inr
  billingHistory_create_Inr referralStats_updateByUser_Inr

subsection \<open>Runs that fail\<close>

lemma reads_return: "reads (return a)"
  by (simp add: reads_def return_def)

lemma reads_throw: "reads (throw e)"
  by (simp add: reads_def throw_def)

lemma reads_await: "reads m \<Longrightarrow> \<forall>a. reads (k a) \<Longrightarrow> reads (await m k)"
proof -
  assume m: "reads m" and k: "\<forall>a. reads (k a)"
  have "snd (await m k db) = db" for db
  proof (cases "m db")
    case (Pair r db')
    with m have "db' = db" by (metis reads_def snd_conv)
    with Pair k show ?thesis
      by (cases r) (simp_all add: await_def reads_def)
  qed
  then show ?thesis by (simp add: reads_def)
qed

lemma reads_user_findUnique: "reads (user_findUnique flt cid)"
  by (simp add: user_findUnique_def reads_def call_def throw_def return_def split: option.splits)

lemma reads_plan_findFirst: "reads (plan_findFirst flt c)"
  by (simp add: plan_findFirst_def reads_def call_def throw_def return_def split: option.splits)

lemma reads_subscription_findFirst: "reads (subscription_findFirst flt uid)"
  by (simp add: subscription_findFirst_def include_plan_def reads_def call_def throw_def
        return_def await_def split: option.splits)

lemma reads_dailyUsage_findFirst: "reads (dailyUsage_findFirst flt uid t)"
  by (simp add: dailyUsage_findFirst_def reads_def call_def throw_def return_def
        split: option.splits)

lemma reads_creditLedger_aggregate: "reads (creditLedger_aggregate flt uid)"
  by (simp add: creditLedger_aggregate_def reads_def call_def throw_def return_def Let_def
        split: option.splits)

lemma reads_include_creditLedger: "reads (include_creditLedger s)"
  by (simp add: include_creditLedger_def reads_def return_def)

lemma reads_subscription_findFirst_row: "reads (subscription_findFirst_row flt uid)"
  by (simp add: subscription_findFirst_row_def reads_def call_def throw_def return_def
        split: option.splits)

lemmas reads_simps = reads_return reads_throw reads_await reads_user_findUnique
  reads_plan_findFirst reads_subscription_findFirst reads_subscription_findFirst_row
  reads_dailyUsage_findFirst
  reads_creditLedger_aggregate reads_include_creditLedger

lemma all_or_nothing_reads: "reads m \<Longrightarrow> all_or_nothing m"
  by (simp add: reads_def all_or_nothing_def)

lemma all_or_nothing_await_read:
  assumes "reads m" and "\<forall>a. all_or_nothing (k a)"
  shows "all_or_nothing (await m k)"
proof -
  have "fst (await m k db) = Inl e \<Longrightarrow> snd (await m k db) = db" for db e
  proof (cases "m db")
    case (Pair r db')
    with assms(1) have [simp]: "db' = db"
      by (metis reads_def snd_conv)
    show "fst (await m k db) = Inl e \<Longrightarrow> snd (await m k db) = db"
    proof (cases r)
      case (Inl e')
      with Pair show ?thesis by (simp add: await_def)
    next
      case (Inr a)
      assume "fst (await m k db) = Inl e"
      with Pair Inr have "fst (k a db) = Inl e" by (simp add: await_def)
      with assms(2) have "snd (k a db) = db" by (simp add: all_or_nothing_def)
      with Pair Inr show ?thesis by (simp add: await_def)
    qed
  qed
  then show ?thesis by (simp add: all_or_nothing_def)
qed

lemma all_or_nothing_transaction_return:
  "all_or_nothing (await (transaction body) (\<lambda>r. return (f r)))"
  by (simp add: all_or_nothing_def transaction_def await_def return_def
        split: prod.splits sum.splits)

lemma all_or_nothing_transaction_return':
  "all_or_nothing (await (transaction body) return)"
  using all_or_nothing_transaction_return [of body "\<lambda>r. r"] by simp

lemmas all_or_nothing_simps = all_or_nothing_await_read all_or_nothing_transaction_return
  all_or_nothing_transaction_return' all_or_nothing_reads reads_simps

lemma consumeCredits_all_or_nothing:
  "all_or_nothing (consumeCredits flt now userId n description)"
  unfolding consumeCredits_def Let_def
  by (simp add: all_or_nothing_simps split: option.splits prod.splits)

lemma confirmPayment_all_or_nothing:
  "all_or_nothing (confirmPayment flt now newId userId planCode paidAt ext opts)"
  unfolding confirmPayment_def Let_def
  by (simp add: all_or_nothing_simps split: option.splits prod.splits)

subsection \<open>Lists of rows\<close>

lemma update_first_distinct:
  "distinct (map key xs) \<Longrightarrow>
   update_first (\<lambda>t. key t = k) f xs = map (\<lambda>t. if key t = k then f t else t) xs"
proof (induction xs)
  case Nil
  then show ?case by simp
next
  case (Cons x xs)
  show ?case
  proof (cases "key x = k")
    case True
    with Cons.prems have "k \<notin> set (map key xs)" by simp
    then have "\<forall>t \<in> set xs. key t \<noteq> k" by auto
    then have "map (\<lambda>t. if key t = k then f t else t) xs = xs"
      by (induction xs) auto
    with True show ?thesis by simp
  next
    case False
    with Cons show ?thesis by simp
  qed
qed

lemma find_update_first:
  "(\<And>x. P x \<Longrightarrow> P (f x)) \<Longrightarrow> find P (update_first P f xs) = map_option f (find P xs)"
  by (induction xs) auto

lemma map_update_first:
  "(\<And>x. P x \<Longrightarrow> g (f x) = g x) \<Longrightarrow> map g (update_first P f xs) = map g xs"
  by (induction xs) auto

lemma find_map_same:
  "(\<And>x. P (g x) = P x) \<Longrightarrow> find P (map g xs) = map_option g (find P xs)"
  by (induction xs) auto

lemma find_key_distinct:
  "distinct (map key xs) \<Longrightarrow> x \<in> set xs \<Longrightarrow> find (\<lambda>t. key t = key x) xs = Some x"
proof (induction xs)
  case Nil
  then show ?case by simp
next
  case (Cons a xs)
  show ?case
  proof (cases "a = x")
    case True
    then show ?thesis by simp
  next
    case False
    with Cons.prems have x: "x \<in> set xs" by simp
    with Cons.prems have "key a \<noteq> key x"
      by (metis distinct.simps(2) image_eqI list.simps(9) set_map)
    with Cons x show ?thesis by simp
  qed
qed

lemma find_in_set: "find P xs = Some x \<Longrightarrow> x \<in> set xs \<and> P x"
  by (induction xs) (auto split: if_splits)

subsection \<open>Payment confirmation\<close>

lemma confirmPayment_tx_success:
  assumes run: "confirmPayment_tx flt now newId user plan (or_default now paidAt) ext
             (or_default ''monthly'' (o_billingCycle opts)) (or_default 0 (o_amount opts))
             (or_default ''usd'' (o_currency opts)) db = (Inr sub, db')"
  shows "users db' = users db \<and> plans db' = plans db \<and> dailyUsage db' = dailyUsage db \<and>
         creditLedger db' = creditLedger db @ [granted_entry user plan (s_id sub)] \<and>
         billingHistory db' =
           billingHistory db @ [billing_record user (s_id sub) now paidAt ext opts] \<and>
         (case find (active_of (u_id user)) (subscriptions db) of
            Some old \<Rightarrow>
              find (\<lambda>s. s_id s = s_id old) (subscriptions db) \<noteq> None \<and>
              sub = activated plan now paidAt opts
                      (the (find (\<lambda>s. s_id s = s_id old) (subscriptions db))) \<and>
              subscriptions db' =
                update_first (\<lambda>s. s_id s = s_id old) (activated plan now paidAt opts)
                  (subscriptions db)
          | None \<Rightarrow>
              newId \<notin> set (map s_id (subscriptions db)) \<and>
              sub = created newId user plan now paidAt opts \<and>
              subscriptions db' = subscriptions db @ [sub]) \<and>
         (if truthy (referredById user) \<and> 0 < or_default 0 (o_amount opts)
          then referralOf db (the (referredById user)) \<noteq> None \<and>
               referralStats db' =
                 update_first (\<lambda>r. r_userId r = the (referredById user)) (credited plan opts)
                   (referralStats db)
          else referralStats db' = referralStats db)"
proof -
  let ?paid = "or_default now paidAt"
  let ?cycle = "or_default ''monthly'' (o_billingCycle opts)"
  let ?amount = "or_default 0 (o_amount opts)"
  have act: "activated plan now paidAt opts =
     (\<lambda>s. s\<lparr>s_planId := p_id plan, billingCycle := ?cycle, status := ''active'',
             currentPeriodStart := ?paid,
             currentPeriodEnd := setMonth ?paid (getMonth ?paid + periodMonths ?cycle),
             cancelAtPeriodEnd := False, canceledAt := None, updatedAt := now\<rparr>)"
    by (simp add: activated_def fun_eq_iff)
  have cred: "credited plan opts =
     (\<lambda>r. r\<lparr>totalPaidSubscribers := totalPaidSubscribers r + 1,
             totalEarning := js_add (totalEarning r)
               (if ?cycle = ''yearly''
                then js_mul (priceYearly plan) (round_double (20 / 100))
                else js_mul (priceMonthly plan) (round_double (20 / 100)))\<rparr>)"
    by (simp add: credited_def referralEarning_def fun_eq_iff)
  from run obtain existing db1 db2 db3 where
        lookup: "subscription_findFirst flt (u_id user) db = (Inr existing, db)"
    and upsert: "(case existing of
                   Some (old, old_plan) \<Rightarrow>
                     subscription_update flt (s_id old) (activated plan now paidAt opts)
                 | None \<Rightarrow> subscription_create flt (created newId user plan now paidAt opts))
                  db = (Inr sub, db1)"
    and grant: "creditLedger_create flt (granted_entry user plan (s_id sub)) db1 = (Inr (), db2)"
    and bill: "billingHistory_create flt (billing_record user (s_id sub) now paidAt ext opts)
                 db2 = (Inr (), db3)"
    and refer: "(if truthy (referredById user) \<and> 0 < ?amount
                 then referralStats_updateByUser flt (the (referredById user))
                        (credited plan opts)
                 else return ()) db3 = (Inr (), db')"
    unfolding confirmPayment_tx_def confirmPayment_write_def Let_def act cred
      granted_entry_def billing_record_def
      created_def
    by (auto simp: Inr_simps subscription_findFirst_Inr)
  from grant have db2: "db2 = db1\<lparr>creditLedger := creditLedger db1 @ [granted_entry user plan (s_id sub)]\<rparr>"
    by (simp add: creditLedger_create_Inr)
  from bill have db3: "db3 = db2\<lparr>billingHistory := billingHistory db2 @ [billing_record user (s_id sub) now paidAt ext opts]\<rparr>"
    by (simp add: billingHistory_create_Inr)
  have subs: "(case find (active_of (u_id user)) (subscriptions db) of
            Some old \<Rightarrow>
              find (\<lambda>s. s_id s = s_id old) (subscriptions db) \<noteq> None \<and>
              sub = activated plan now paidAt opts
                      (the (find (\<lambda>s. s_id s = s_id old) (subscriptions db))) \<and>
              db1 = db\<lparr>subscriptions :=
                update_first (\<lambda>s. s_id s = s_id old) (activated plan now paidAt opts)
                  (subscriptions db)\<rparr>
          | None \<Rightarrow>
              newId \<notin> set (map s_id (subscriptions db)) \<and>
              sub = created newId user plan now paidAt opts \<and>
              db1 = db\<lparr>subscriptions := subscriptions db @ [sub]\<rparr>)"
    using lookup upsert
    by (auto simp: subscription_findFirst_Inr subscription_update_Inr subscription_create_Inr
          created_def split: option.splits)
  have refs: "(if truthy (referredById user) \<and> 0 < ?amount
          then referralOf db3 (the (referredById user)) \<noteq> None \<and>
               db' = db3\<lparr>referralStats :=
                 update_first (\<lambda>r. r_userId r = the (referredById user)) (credited plan opts)
                   (referralStats db3)\<rparr>
          else db' = db3)"
    using refer
    by (auto simp: referralStats_updateByUser_Inr return_Inr referralOf_def split: if_splits)
  have db1_frame: "users db1 = users db \<and> plans db1 = plans db \<and> dailyUsage db1 = dailyUsage db
      \<and> creditLedger db1 = creditLedger db \<and> billingHistory db1 = billingHistory db
      \<and> referralStats db1 = referralStats db"
    using subs by (simp split: option.splits)
  have db'_frame: "users db' = users db3 \<and> plans db' = plans db3 \<and> dailyUsage db' = dailyUsage db3
      \<and> creditLedger db' = creditLedger db3 \<and> billingHistory db' = billingHistory db3
      \<and> subscriptions db' = subscriptions db3"
    using refs by (simp split: if_splits)
  have subs3: "subscriptions db3 = subscriptions db1" and refs3: "referralStats db3 = referralStats db"
    using db1_frame by (simp_all add: db2 db3)
  show ?thesis
  proof (intro conjI)
    show "users db' = users db" "plans db' = plans db" "dailyUsage db' = dailyUsage db"
      using db1_frame db'_frame by (simp_all add: db2 db3)
    show "creditLedger db' = creditLedger db @ [granted_entry user plan (s_id sub)]"
      using db1_frame db'_frame by (simp add: db2 db3)
    show "billingHistory db' =
           billingHistory db @ [billing_record user (s_id sub) now paidAt ext opts]"
      using db1_frame db'_frame by (simp add: db2 db3)
    show "case find (active_of (u_id user)) (subscriptions db) of
            Some old \<Rightarrow>
              find (\<lambda>s. s_id s = s_id old) (subscriptions db) \<noteq> None \<and>
              sub = activated plan now paidAt opts
                      (the (find (\<lambda>s. s_id s = s_id old) (subscriptions db))) \<and>
              subscriptions db' =
                update_first (\<lambda>s. s_id s = s_id old) (activated plan now paidAt opts)
                  (subscriptions db)
          | None \<Rightarrow>
              newId \<notin> set (map s_id (subscriptions db)) \<and>
              sub = created newId user plan now paidAt opts \<and>
              subscriptions db' = subscriptions db @ [sub]"
      using subs db'_frame subs3 by (auto split: option.splits)
    show "if truthy (referredById user) \<and> 0 < or_default 0 (o_amount opts)
          then referralOf db (the (referredById user)) \<noteq> None \<and>
               referralStats db' =
                 update_first (\<lambda>r. r_userId r = the (referredById user)) (credited plan opts)
                   (referralStats db)
          else referralStats db' = referralStats db"
      using refs refs3 by (auto simp: referralOf_def split: if_splits)
  qed
qed

lemma confirmPayment_success:
  assumes "confirmPayment flt now newId userId planCode paidAt ext opts db = (Inr r, db')"
  shows "\<exists>user plan.
           find (\<lambda>u. clerkUserId u = userId) (users db) = Some user \<and>
           find (\<lambda>p. p_id p = planCode \<or> p_name p = planCode) (plans db) = Some plan \<and>
           creditsGranted r = creditsToGrant plan \<and>
           confirmPayment_tx flt now newId user plan (or_default now paidAt) ext
             (or_default ''monthly'' (o_billingCycle opts)) (or_default 0 (o_amount opts))
             (or_default ''usd'' (o_currency opts)) db = (Inr (cr_subscription r), db')"
  using assms unfolding confirmPayment_def Let_def
  by (auto simp: Inr_simps user_findUnique_Inr plan_findFirst_Inr split: option.splits)

lemma availableBalance_append:
  "creditLedger db' = creditLedger db @ [l] \<Longrightarrow>
   availableBalance db' uid = availableBalance db uid + (if l_userId l = uid then l_amount l else 0)"
  by (simp add: availableBalance_def)

text \<open>
  C1. A run of \<open>confirmPayment\<close> that ends in an error leaves the store as it was: of
  the subscription upsert, the grant in the ledger, the billing record and the referral
  increment, none persists. A run that succeeds has found the user and the plan, grants
  \<open>plan.dailyCredits\<close> for a daily plan and \<open>plan.monthlyCredits\<close> otherwise, appends to
  the ledger exactly the entry of that grant, so that the available balance of the user
  grows by exactly \<open>creditsGranted\<close>, and appends exactly one billing record, whose status
  is \<open>completed\<close>.
\<close>

theorem confirmPayment_grants_atomically:
  assumes "confirmPayment flt now newId userId planCode paidAt ext opts db = (res, db')"
  shows "case res of
           Inl e \<Rightarrow> db' = db
         | Inr r \<Rightarrow>
             (\<exists>user plan.
                find (\<lambda>u. clerkUserId u = userId) (users db) = Some user \<and>
                find (\<lambda>p. p_id p = planCode \<or> p_name p = planCode) (plans db) = Some plan \<and>
                creditsGranted r = (if isDaily plan then dailyCredits plan else monthlyCredits plan) \<and>
                availableBalance db' (u_id user) = availableBalance db (u_id user) + creditsGranted r \<and>
                creditLedger db' =
                  creditLedger db @ [granted_entry user plan (s_id (cr_subscription r))] \<and>
                billingHistory db' =
                  billingHistory db @
                    [billing_record user (s_id (cr_subscription r)) now paidAt ext opts] \<and>
                b_status (billing_record user (s_id (cr_subscription r)) now paidAt ext opts)
                  = ''completed'')"
proof (cases res)
  case (Inl e)
  with assms confirmPayment_all_or_nothing [of flt now newId userId planCode paidAt ext opts]
  show ?thesis by (simp add: all_or_nothing_def) (metis fst_conv snd_conv)
next
  case (Inr r)
  with assms confirmPayment_success obtain user plan where
      u: "find (\<lambda>u. clerkUserId u = userId) (users db) = Some user"
    and p: "find (\<lambda>p. p_id p = planCode \<or> p_name p = planCode) (plans db) = Some plan"
    and g: "creditsGranted r = creditsToGrant plan"
    and tx: "confirmPayment_tx flt now newId user plan (or_default now paidAt) ext
             (or_default ''monthly'' (o_billingCycle opts)) (or_default 0 (o_amount opts))
             (or_default ''usd'' (o_currency opts)) db = (Inr (cr_subscription r), db')"
    by blast
  from confirmPayment_tx_success [OF tx]
  have l: "creditLedger db' =
             creditLedger db @ [granted_entry user plan (s_id (cr_subscription r))]"
   and b: "billingHistory db' =
             billingHistory db @ [billing_record user (s_id (cr_subscription r)) now paidAt ext opts]"
    by simp_all
  from availableBalance_append [OF l, of "u_id user"] g
  have "availableBalance db' (u_id user) = availableBalance db (u_id user) + creditsGranted r"
    by (simp add: granted_entry_def)
  with u p g l b Inr show ?thesis
    by (simp add: creditsToGrant_def billing_record_def)
qed

theorem confirmPayment_grants_atomically_witness:
  "availableBalance shop ''u2'' = 2 \<and>
   availableBalance
     (snd (confirmPayment no_faults (on_day 2024 2 15) ''s2'' ''clerk_bob'' ''Pro'' None
             ''pi_1'' monthly_pro shop)) ''u2'' = 27 \<and>
   length (billingHistory
     (snd (confirmPayment no_faults (on_day 2024 2 15) ''s2'' ''clerk_bob'' ''Pro'' None
             ''pi_1'' monthly_pro shop))) = length (billingHistory shop) + 1 \<and>
   fst (confirmPayment (rejecting ReferralStats_update) (on_day 2024 2 15) ''s2'' ''clerk_bob''
          ''Pro'' None ''pi_1'' monthly_pro shop) = Inl (StoreError ''Connection lost'') \<and>
   snd (confirmPayment (rejecting ReferralStats_update) (on_day 2024 2 15) ''s2'' ''clerk_bob''
          ''Pro'' None ''pi_1'' monthly_pro shop) = shop"
proof -
  let ?ok = "confirmPayment no_faults (on_day 2024 2 15) ''s2'' ''clerk_bob'' ''Pro'' None
               ''pi_1'' monthly_pro shop"
  let ?ko = "confirmPayment (rejecting ReferralStats_update) (on_day 2024 2 15) ''s2''
               ''clerk_bob'' ''Pro'' None ''pi_1'' monthly_pro shop"
  have "case fst ?ok of Inl e \<Rightarrow> False | Inr r \<Rightarrow> creditsGranted r = 25"
    by code_simp
  then have granted: "\<exists>r. fst ?ok = Inr r \<and> creditsGranted r = 25"
    by (cases "fst ?ok") auto
  have bob: "find (\<lambda>u. clerkUserId u = ''clerk_bob'') (users shop) = Some bob"
    by code_simp
  have before: "availableBalance shop ''u2'' = 2"
    by code_simp
  have rejected: "fst ?ko = Inl (StoreError ''Connection lost'')"
    by code_simp
  from granted obtain r where r: "fst ?ok = Inr r" "creditsGranted r = 25"
    by blast
  then have ok: "?ok = (Inr r, snd ?ok)"
    by (metis prod.collapse)
  from confirmPayment_grants_atomically [OF ok] r bob
  have "availableBalance (snd ?ok) ''u2'' = availableBalance shop ''u2'' + 25"
   and "length (billingHistory (snd ?ok)) = length (billingHistory shop) + 1"
    by (auto simp: bob_def)
  moreover
  from rejected have ko: "?ko = (Inl (StoreError ''Connection lost''), snd ?ko)"
    by (metis prod.collapse)
  from confirmPayment_grants_atomically [OF ko]
  have "snd ?ko = shop"
    by simp
  ultimately show ?thesis
    using before rejected by simp
qed

text \<open>
  C7, as amended. When \<open>confirmPayment\<close> succeeds for a user whose referrer is set and
  \<open>amount > 0\<close>, the referral row of the referrer has \<open>totalPaidSubscribers\<close> increased by
  exactly 1 and \<open>totalEarning\<close> incremented, in the double arithmetic of the language, by
  the double product of the plan's price for the billing cycle (\<open>priceYearly\<close> for
  \<open>yearly\<close>, \<open>priceMonthly\<close> otherwise) and the literal \<open>0.20\<close>. This holds of every
  such run, a first payment or a later one. With no referrer or \<open>amount\<close> not above 0 the
  referral rows are unchanged.
\<close>

theorem confirmPayment_referral:
  assumes run: "confirmPayment flt now newId userId planCode paidAt ext opts db = (Inr r, db')"
      and u: "find (\<lambda>u. clerkUserId u = userId) (users db) = Some user"
      and p: "find (\<lambda>p. p_id p = planCode \<or> p_name p = planCode) (plans db) = Some plan"
  shows "if truthy (referredById user) \<and> 0 < or_default 0 (o_amount opts)
         then \<exists>old. referralOf db (the (referredById user)) = Some old \<and>
                referralOf db' (the (referredById user)) =
                  Some (old\<lparr>totalPaidSubscribers := totalPaidSubscribers old + 1,
                            totalEarning :=
                              js_add (totalEarning old)
                                (js_mul (if or_default ''monthly'' (o_billingCycle opts) = ''yearly''
                                         then priceYearly plan else priceMonthly plan)
                                   (round_double (20 / 100)))\<rparr>) \<and>
                referralStats db' =
                  update_first (\<lambda>r. r_userId r = the (referredById user)) (credited plan opts)
                    (referralStats db)
         else referralStats db' = referralStats db"
proof -
  from confirmPayment_success [OF run] u p
  have tx: "confirmPayment_tx flt now newId user plan (or_default now paidAt) ext
             (or_default ''monthly'' (o_billingCycle opts)) (or_default 0 (o_amount opts))
             (or_default ''usd'' (o_currency opts)) db = (Inr (cr_subscription r), db')"
    by auto
  note eff = confirmPayment_tx_success [OF tx]
  show ?thesis
  proof (cases "truthy (referredById user) \<and> 0 < or_default 0 (o_amount opts)")
    case False
    with eff show ?thesis by auto
  next
    case True
    with eff obtain old where old: "referralOf db (the (referredById user)) = Some old"
      and upd: "referralStats db' =
                  update_first (\<lambda>r. r_userId r = the (referredById user)) (credited plan opts)
                    (referralStats db)"
      by auto
    have "referralOf db' (the (referredById user)) = Some (credited plan opts old)"
      using old unfolding referralOf_def upd
      by (subst find_update_first) (simp_all add: credited_def)
    with old upd True show ?thesis
      by (simp add: credited_def referralEarning_def)
  qed
qed


theorem confirmPayment_referral_witness:
  "referralOf shop ''u1'' =
     Some \<lparr>r_userId = ''u1'', referenceId = ''AURA-REF-alice000'', totalUsersSigned = 1,
           totalPaidSubscribers = 0, totalEarning = 0\<rparr> \<and>
   referralOf
     (snd (confirmPayment no_faults (on_day 2024 2 15) ''s2'' ''clerk_bob'' ''Pro'' None
             ''pi_1'' monthly_pro shop)) ''u1'' =
     Some \<lparr>r_userId = ''u1'', referenceId = ''AURA-REF-alice000'', totalUsersSigned = 1,
           totalPaidSubscribers = 1,
           totalEarning = js_add 0 (js_mul (round_double (999 / 100)) (round_double (20 / 100)))\<rparr>"
proof -
  let ?ok = "confirmPayment no_faults (on_day 2024 2 15) ''s2'' ''clerk_bob'' ''Pro'' None
               ''pi_1'' monthly_pro shop"
  have "case fst ?ok of Inl e \<Rightarrow> False | Inr r \<Rightarrow> True"
    by code_simp
  then have ran: "\<exists>r. fst ?ok = Inr r"
    by (cases "fst ?ok") auto
  then obtain r where r: "?ok = (Inr r, snd ?ok)"
    by (metis prod.collapse)
  have bob: "find (\<lambda>u. clerkUserId u = ''clerk_bob'') (users shop) = Some bob"
    by code_simp
  have pro: "find (\<lambda>p. p_id p = ''Pro'' \<or> p_name p = ''Pro'') (plans shop) = Some pro_plan"
    by code_simp
  have referred: "truthy (referredById bob) \<and> 0 < or_default 0 (o_amount monthly_pro)"
    by code_simp
  have before: "referralOf shop ''u1'' =
     Some \<lparr>r_userId = ''u1'', referenceId = ''AURA-REF-alice000'', totalUsersSigned = 1,
           totalPaidSubscribers = 0, totalEarning = 0\<rparr>"
    by code_simp
  from confirmPayment_referral [OF r bob pro] referred before
  show ?thesis
    by (simp add: bob_def pro_plan_def monthly_pro_def or_default_def)
qed

text \<open>
  For the \<open>Pro\<close> plan at 9.99 a month the increment is the double
  \<open>1.9980000000000002\<close>, which is neither the decimal 1.998 nor the double nearest to it.
\<close>

theorem confirmPayment_referral_counterexample:
  "map_option totalEarning (referralOf shop ''u1'') = Some 0 \<and>
   map_option totalEarning
     (referralOf
        (snd (confirmPayment no_faults (on_day 2024 2 15) ''s2'' ''clerk_bob'' ''Pro'' None
                ''pi_1'' monthly_pro shop)) ''u1'')
     = Some (2249548013871563 / 1125899906842624) \<and>
   (2249548013871563 / 1125899906842624 :: rat) - 0 \<noteq> 1998 / 1000 \<and>
   (2249548013871563 / 1125899906842624 :: rat) - 0 \<noteq> round_double (1998 / 1000)"
  by code_simp

subsection \<open>Usage consumption\<close>

lemma or_zero_sum:
  "or_zero (if rows = [] then None else Some (sum_list (map l_amount rows)))
     = sum_list (map l_amount rows)"
  by (simp add: or_zero_def)

lemma consumeCredits_tx_run:
  "flt CreditLedger_create (s_id s) = None \<Longrightarrow> flt DailyUsage_upsert (u_id u) = None \<Longrightarrow>
   consumeCredits_tx flt now u s p n description available db =
     (Inr \<lparr>creditsConsumed = n, remainingCredits = available - n\<rparr>,
      db\<lparr>creditLedger := creditLedger db @ [consumed_entry (u_id u) (s_id s) n description],
         dailyUsage := (if isDaily p then usage_counted db (u_id u) (s_id s) now n
                        else dailyUsage db)\<rparr>)"
  by (simp add: consumeCredits_tx_def creditLedger_create_def dailyUsage_upsert_def
        action_defs consumed_entry_def usage_counted_def split: option.splits)

text \<open>
  C3. On a store that answers every call, \<open>consumeCredits\<close> decides in this order: it
  fails with \<open>UserNotFound\<close> when the user does not exist, with
  \<open>NoActiveSubscription\<close> when the user has no active subscription, with
  \<open>DailyLimitExceeded\<close> when the active plan is daily and today's usage plus \<open>n\<close>
  exceeds \<open>plan.dailyCredits\<close>, with \<open>InsufficientCredits\<close> when \<open>n\<close> exceeds the
  balance (the sum of the user's ledger entries); otherwise it succeeds, appends exactly one
  ledger entry of \<open>-n\<close>, counts \<open>n\<close> on today's usage row of a daily plan, and returns
  \<open>remainingCredits = balance - n\<close>. Whatever the store rejects, a failed attempt leaves
  the store, so the ledger and the daily usage, unchanged.
\<close>

theorem consumeCredits_outcome:
  "consumeCredits no_faults now userId n description db =
     (case find (\<lambda>u. clerkUserId u = userId) (users db) of
        None \<Rightarrow> (Inl (UserNotFound userId), db)
      | Some user \<Rightarrow>
          (case find (active_of (u_id user)) (subscriptions db) of
             None \<Rightarrow> (Inl NoActiveSubscription, db)
           | Some s \<Rightarrow>
               (case find (\<lambda>p. p_id p = s_planId s) (plans db) of
                  None \<Rightarrow> (Inl (StoreError ''Inconsistent query result: plan''), db)
                | Some p \<Rightarrow>
                    if isDaily p \<and> usageToday db (u_id user) now + n > dailyCredits p
                    then (Inl (DailyLimitExceeded (usageToday db (u_id user) now)
                                 (dailyCredits p)), db)
                    else if n > availableBalance db (u_id user)
                    then (Inl (InsufficientCredits (availableBalance db (u_id user)) n), db)
                    else (Inr \<lparr>creditsConsumed = n,
                               remainingCredits = availableBalance db (u_id user) - n\<rparr>,
                          db\<lparr>creditLedger :=
                                creditLedger db @ [consumed_entry (u_id user) (s_id s) n description],
                              dailyUsage :=
                                (if isDaily p then usage_counted db (u_id user) (s_id s) now n
                                 else dailyUsage db)\<rparr>))))
     \<and> (\<forall>flt e. fst (consumeCredits flt now userId n description db) = Inl e \<longrightarrow>
                 snd (consumeCredits flt now userId n description db) = db)"
proof (rule conjI)
  show "\<forall>flt e. fst (consumeCredits flt now userId n description db) = Inl e \<longrightarrow>
                 snd (consumeCredits flt now userId n description db) = db"
    using consumeCredits_all_or_nothing by (simp add: all_or_nothing_def)
next
  show "consumeCredits no_faults now userId n description db =
     (case find (\<lambda>u. clerkUserId u = userId) (users db) of
        None \<Rightarrow> (Inl (UserNotFound userId), db)
      | Some user \<Rightarrow>
          (case find (active_of (u_id user)) (subscriptions db) of
             None \<Rightarrow> (Inl NoActiveSubscription, db)
           | Some s \<Rightarrow>
               (case find (\<lambda>p. p_id p = s_planId s) (plans db) of
                  None \<Rightarrow> (Inl (StoreError ''Inconsistent query result: plan''), db)
                | Some p \<Rightarrow>
                    if isDaily p \<and> usageToday db (u_id user) now + n > dailyCredits p
                    then (Inl (DailyLimitExceeded (usageToday db (u_id user) now)
                                 (dailyCredits p)), db)
                    else if n > availableBalance db (u_id user)
                    then (Inl (InsufficientCredits (availableBalance db (u_id user)) n), db)
                    else (Inr \<lparr>creditsConsumed = n,
                               remainingCredits = availableBalance db (u_id user) - n\<rparr>,
                          db\<lparr>creditLedger :=
                                creditLedger db @ [consumed_entry (u_id user) (s_id s) n description],
                              dailyUsage :=
                                (if isDaily p then usage_counted db (u_id user) (s_id s) now n
                                 else dailyUsage db)\<rparr>))))"
    by (simp add: consumeCredits_def user_findUnique_def subscription_findFirst_def
          include_plan_def dailyUsage_findFirst_def creditLedger_aggregate_def
          consumeCredits_tx_run action_defs Let_def no_faults_def or_zero_sum
          usageToday_def availableBalance_def split: option.splits)
qed




theorem consumeCredits_outcome_witness:
  "consumeCredits no_faults noon ''clerk_carol'' 1 ''search'' daily_shop =
     (Inl (UserNotFound ''clerk_carol''), daily_shop) \<and>
   consumeCredits no_faults noon ''clerk_bob'' 1 ''search'' daily_shop =
     (Inl NoActiveSubscription, daily_shop) \<and>
   consumeCredits no_faults noon ''clerk_alice'' 10 ''search'' daily_shop =
     (Inl (DailyLimitExceeded 20 25), daily_shop) \<and>
   consumeCredits no_faults noon ''clerk_alice'' 5 ''search'' daily_shop =
     (Inl (InsufficientCredits 4 5), daily_shop) \<and>
   consumeCredits no_faults noon ''clerk_alice'' 4 ''search'' daily_shop =
     (Inr \<lparr>creditsConsumed = 4, remainingCredits = 0\<rparr>,
      daily_shop
        \<lparr>creditLedger :=
           creditLedger daily_shop @
             [\<lparr>l_userId = ''u1'', l_subscriptionId = ''s3'', l_amount = - 4,
               l_type = ''consumed'', l_description = ''search''\<rparr>],
         dailyUsage :=
           [\<lparr>d_userId = ''u1'', d_subscriptionId = ''s3'', d_date = on_day 2024 2 15,
             usageCount = 24\<rparr>]\<rparr>) \<and>
   fst (consumeCredits (rejecting DailyUsage_upsert) noon ''clerk_alice'' 4 ''search'' daily_shop)
     = Inl (StoreError ''Connection lost'') \<and>
   snd (consumeCredits (rejecting DailyUsage_upsert) noon ''clerk_alice'' 4 ''search'' daily_shop)
     = daily_shop"
proof (intro conjI)
  note outcome = consumeCredits_outcome [THEN conjunct1]
  show "consumeCredits no_faults noon ''clerk_carol'' 1 ''search'' daily_shop =
          (Inl (UserNotFound ''clerk_carol''), daily_shop)"
    by (rule trans [OF outcome]) code_simp
  show "consumeCredits no_faults noon ''clerk_bob'' 1 ''search'' daily_shop =
          (Inl NoActiveSubscription, daily_shop)"
    by (rule trans [OF outcome]) code_simp
  show "consumeCredits no_faults noon ''clerk_alice'' 10 ''search'' daily_shop =
          (Inl (DailyLimitExceeded 20 25), daily_shop)"
    by (rule trans [OF outcome]) code_simp
  show "consumeCredits no_faults noon ''clerk_alice'' 5 ''search'' daily_shop =
          (Inl (InsufficientCredits 4 5), daily_shop)"
    by (rule trans [OF outcome]) code_simp
  show "consumeCredits no_faults noon ''clerk_alice'' 4 ''search'' daily_shop =
     (Inr \<lparr>creditsConsumed = 4, remainingCredits = 0\<rparr>,
      daily_shop
        \<lparr>creditLedger :=
           creditLedger daily_shop @
             [\<lparr>l_userId = ''u1'', l_subscriptionId = ''s3'', l_amount = - 4,
               l_type = ''consumed'', l_description = ''search''\<rparr>],
         dailyUsage :=
           [\<lparr>d_userId = ''u1'', d_subscriptionId = ''s3'', d_date = on_day 2024 2 15,
             usageCount = 24\<rparr>]\<rparr>)"
    by (rule trans [OF outcome]) code_simp
  show rejected:
    "fst (consumeCredits (rejecting DailyUsage_upsert) noon ''clerk_alice'' 4 ''search'' daily_shop)
       = Inl (StoreError ''Connection lost'')"
    by code_simp
  from consumeCredits_outcome [THEN conjunct2, rule_format, OF rejected]
  show "snd (consumeCredits (rejecting DailyUsage_upsert) noon ''clerk_alice'' 4 ''search''
               daily_shop) = daily_shop" .
qed


text \<open>
  C9. A consumption request whose \<open>credits\<close> is a number not above 0 is answered with
  status 400 before the service is called: the store is unchanged, so no ledger entry is
  appended and no usage row is created or incremented. With a user named in the request the
  message is that credits must be a positive number. The guard is the controller's; the
  service function on its own has none.
\<close>

theorem consume_nonpositive_rejected:
  assumes "req_credits body = Number n" and "n \<le> 0"
  shows "snd (consumeCredits_controller flt now body db) = db \<and>
         http_status (fst (consumeCredits_controller flt now body db)) = 400 \<and>
         payload (fst (consumeCredits_controller flt now body db)) = None \<and>
         (truthy (req_userId body) \<longrightarrow>
            message (fst (consumeCredits_controller flt now body db)) =
              ''Credits must be a positive number'')"
  using assms by (simp add: consumeCredits_controller_def reply_def Let_def)

theorem consume_nonpositive_rejected_witness:
  "consumeCredits_controller no_faults noon
     \<lparr>req_userId = Some ''clerk_alice'', req_credits = Number (- 3), req_description = None\<rparr>
     daily_shop =
     (\<lparr>http_status = 400, message = ''Credits must be a positive number'', payload = None,
       caught = None\<rparr>, daily_shop) \<and>
   snd (consumeCredits_controller no_faults noon
     \<lparr>req_userId = Some ''clerk_alice'', req_credits = Number 0, req_description = None\<rparr>
     daily_shop) = daily_shop"
proof -
  let ?neg = "\<lparr>req_userId = Some ''clerk_alice'', req_credits = Number (- 3),
                req_description = None\<rparr>"
  let ?zero = "\<lparr>req_userId = Some ''clerk_alice'', req_credits = Number 0,
                 req_description = None\<rparr>"
  have "caught (fst (consumeCredits_controller no_faults noon ?neg daily_shop)) = None"
    by (simp add: consumeCredits_controller_def reply_def truthy_def)
  with consume_nonpositive_rejected [of ?neg "- 3" no_faults noon daily_shop]
       consume_nonpositive_rejected [of ?zero 0 no_faults noon daily_shop]
  show ?thesis
    by (cases "consumeCredits_controller no_faults noon ?neg daily_shop")
       (auto simp: truthy_def)
qed

lemma consumeCredits_service_unguarded:
  "creditLedger (snd (consumeCredits no_faults noon ''clerk_alice'' (- 3) ''search'' daily_shop))
     = creditLedger daily_shop @
         [\<lparr>l_userId = ''u1'', l_subscriptionId = ''s3'', l_amount = 3, l_type = ''consumed'',
           l_description = ''search''\<rparr>]"
  by code_simp


subsection \<open>Cancellation\<close>

text \<open>
  C8. \<open>cancelSubscription\<close> for an existing user fails with \<open>NoActiveSubscription\<close>
  when the user has no active subscription. Otherwise, unless the store rejects the
  update, it returns the active subscription with \<open>cancelAtPeriodEnd = true\<close> and
  \<open>canceledAt = now\<close> (and the time of the write in \<open>updatedAt\<close>), writes that to
  this one row and changes nothing else: the status, the plan, the billing cycle and both
  period bounds are as before, and the row is still the user's active subscription. The
  plan is not looked up: the cancellation succeeds also when the row of the plan is missing.
\<close>

theorem cancelSubscription_frame:
  assumes "find (\<lambda>u. clerkUserId u = userId) (users db) = Some user"
      and "flt User_findUnique userId = None"
      and "flt Subscription_findFirst (u_id user) = None"
      and "distinct (map s_id (subscriptions db))"
  shows "cancelSubscription flt now userId db =
           (case find (active_of (u_id user)) (subscriptions db) of
              None \<Rightarrow> (Inl NoActiveSubscription, db)
            | Some s \<Rightarrow>
                (case flt Subscription_update (s_id s) of
                   Some msg \<Rightarrow> (Inl (StoreError msg), db)
                 | None \<Rightarrow>
                     (Inr (s\<lparr>cancelAtPeriodEnd := True, canceledAt := Some now,
                             updatedAt := now\<rparr>),
                      db\<lparr>subscriptions :=
                            map (\<lambda>t. if s_id t = s_id s
                                      then t\<lparr>cancelAtPeriodEnd := True,
                                              canceledAt := Some now, updatedAt := now\<rparr>
                                      else t) (subscriptions db)\<rparr>)))
         \<and> (\<forall>s' db'. cancelSubscription flt now userId db = (Inr s', db') \<longrightarrow>
               (\<exists>s. find (active_of (u_id user)) (subscriptions db) = Some s \<and>
                    find (active_of (u_id user)) (subscriptions db') = Some s' \<and>
                    cancelAtPeriodEnd s' = True \<and> canceledAt s' = Some now \<and>
                    status s' = status s \<and> status s' = ''active'' \<and> s_planId s' = s_planId s \<and>
                    billingCycle s' = billingCycle s \<and>
                    currentPeriodStart s' = currentPeriodStart s \<and>
                    currentPeriodEnd s' = currentPeriodEnd s \<and>
                    s_id s' = s_id s \<and> s_userId s' = s_userId s))"
proof -
  let ?rhs = "case find (active_of (u_id user)) (subscriptions db) of
              None \<Rightarrow> (Inl NoActiveSubscription, db)
            | Some s \<Rightarrow>
                (case flt Subscription_update (s_id s) of
                   Some msg \<Rightarrow> (Inl (StoreError msg), db)
                 | None \<Rightarrow>
                     (Inr (canceled now s),
                      db\<lparr>subscriptions :=
                            map (\<lambda>t. if s_id t = s_id s then canceled now t else t)
                              (subscriptions db)\<rparr>))"
  have same_key: "find (\<lambda>t. s_id t = s_id s) (subscriptions db) = Some s"
    if "find (active_of (u_id user)) (subscriptions db) = Some s" for s
    using that assms(4) find_in_set find_key_distinct by fastforce
  have eq: "cancelSubscription flt now userId db = ?rhs"
    using assms same_key
    by (simp add: cancelSubscription_def user_findUnique_def subscription_findFirst_row_def
          subscription_update_def action_defs update_first_distinct
          canceled_def split: option.splits)
  have frame: "\<exists>s. find (active_of (u_id user)) (subscriptions db) = Some s \<and>
                    find (active_of (u_id user)) (subscriptions db') = Some s' \<and>
                    cancelAtPeriodEnd s' = True \<and> canceledAt s' = Some now \<and>
                    status s' = status s \<and> status s' = ''active'' \<and> s_planId s' = s_planId s \<and>
                    billingCycle s' = billingCycle s \<and>
                    currentPeriodStart s' = currentPeriodStart s \<and>
                    currentPeriodEnd s' = currentPeriodEnd s \<and>
                    s_id s' = s_id s \<and> s_userId s' = s_userId s"
    if run: "cancelSubscription flt now userId db = (Inr s', db')" for s' db'
  proof -
    from run eq obtain s where
        s: "find (active_of (u_id user)) (subscriptions db) = Some s"
      and s': "s' = canceled now s"
      and db': "subscriptions db' =
                  map (\<lambda>t. if s_id t = s_id s then canceled now t else t) (subscriptions db)"
      by (auto split: option.splits)
    let ?g = "\<lambda>t. if s_id t = s_id s then canceled now t else t"
    have "find (active_of (u_id user)) (map ?g (subscriptions db))
            = map_option ?g (find (active_of (u_id user)) (subscriptions db))"
      by (rule find_map_same) (simp add: active_of_def canceled_def)
    with s s' db' have "find (active_of (u_id user)) (subscriptions db') = Some s'"
      by simp
    moreover from s have "status s = ''active''"
      using find_in_set [of "active_of (u_id user)" "subscriptions db" s]
      by (simp add: active_of_def)
    ultimately show ?thesis
      using s s' by (simp add: canceled_def)
  qed
  show ?thesis
    by (intro conjI allI impI; (rule eq [unfolded canceled_def] | erule frame))
qed

theorem cancelSubscription_frame_witness:
  "cancelSubscription no_faults noon ''clerk_bob'' daily_shop =
     (Inl NoActiveSubscription, daily_shop) \<and>
   cancelSubscription no_faults noon ''clerk_alice'' daily_shop =
     (Inr \<lparr>s_id = ''s3'', s_userId = ''u1'', s_planId = ''pro-plan-id'',
           billingCycle = ''monthly'', status = ''active'',
           currentPeriodStart = on_day 2024 2 1, currentPeriodEnd = on_day 2024 3 1,
           cancelAtPeriodEnd = True, canceledAt = Some noon, updatedAt = noon,
           stripeSubscriptionId = None, startDate = None, endDate = None,
           s_remainingCredits = None\<rparr>,
      daily_shop
        \<lparr>subscriptions :=
           [\<lparr>s_id = ''s3'', s_userId = ''u1'', s_planId = ''pro-plan-id'',
             billingCycle = ''monthly'', status = ''active'',
             currentPeriodStart = on_day 2024 2 1, currentPeriodEnd = on_day 2024 3 1,
             cancelAtPeriodEnd = True, canceledAt = Some noon, updatedAt = noon,
             stripeSubscriptionId = None, startDate = None, endDate = None,
             s_remainingCredits = None\<rparr>]\<rparr>) \<and>
   map_sum id cancelAtPeriodEnd
     (fst (cancelSubscription no_faults noon ''clerk_alice'' (daily_shop\<lparr>plans := []\<rparr>)))
     = Inr True"
proof (intro conjI)
  have ids: "distinct (map s_id (subscriptions daily_shop))"
    by code_simp
  have alice: "find (\<lambda>u. clerkUserId u = ''clerk_alice'') (users daily_shop) = Some alice"
    by code_simp
  have bob: "find (\<lambda>u. clerkUserId u = ''clerk_bob'') (users daily_shop) = Some bob"
    by code_simp
  have answers: "no_faults User_findUnique k = None" "no_faults Subscription_findFirst k = None"
    for k by (simp_all add: no_faults_def)
  show "cancelSubscription no_faults noon ''clerk_bob'' daily_shop =
          (Inl NoActiveSubscription, daily_shop)"
    by (rule trans [OF cancelSubscription_frame [OF bob answers ids, THEN conjunct1]]) code_simp
  show "cancelSubscription no_faults noon ''clerk_alice'' daily_shop =
     (Inr \<lparr>s_id = ''s3'', s_userId = ''u1'', s_planId = ''pro-plan-id'',
           billingCycle = ''monthly'', status = ''active'',
           currentPeriodStart = on_day 2024 2 1, currentPeriodEnd = on_day 2024 3 1,
           cancelAtPeriodEnd = True, canceledAt = Some noon, updatedAt = noon,
           stripeSubscriptionId = None, startDate = None, endDate = None,
           s_remainingCredits = None\<rparr>,
      daily_shop
        \<lparr>subscriptions :=
           [\<lparr>s_id = ''s3'', s_userId = ''u1'', s_planId = ''pro-plan-id'',
             billingCycle = ''monthly'', status = ''active'',
             currentPeriodStart = on_day 2024 2 1, currentPeriodEnd = on_day 2024 3 1,
             cancelAtPeriodEnd = True, canceledAt = Some noon, updatedAt = noon,
             stripeSubscriptionId = None, startDate = None, endDate = None,
             s_remainingCredits = None\<rparr>]\<rparr>)"
    by (rule trans [OF cancelSubscription_frame [OF alice answers ids, THEN conjunct1]]) code_simp
  have ids': "distinct (map s_id (subscriptions (daily_shop\<lparr>plans := []\<rparr>)))"
    by code_simp
  have alice':
    "find (\<lambda>u. clerkUserId u = ''clerk_alice'') (users (daily_shop\<lparr>plans := []\<rparr>))
       = Some alice"
    by code_simp
  show "map_sum id cancelAtPeriodEnd
          (fst (cancelSubscription no_faults noon ''clerk_alice'' (daily_shop\<lparr>plans := []\<rparr>)))
          = Inr True"
    by (subst cancelSubscription_frame [OF alice' answers ids', THEN conjunct1]) code_simp
qed

subsection \<open>Renewal batch\<close>

lemma include_plan_user_Inr:
  "include_plan_user db ss = Inr items \<Longrightarrow>
   map fst items = ss \<and>
   (\<forall>(s, p, u) \<in> set items.
      find (\<lambda>p. p_id p = s_planId s) (plans db) = Some p \<and>
      find (\<lambda>u. u_id u = s_userId s) (users db) = Some u)"
  by (induction ss arbitrary: items) (auto split: option.splits sum.splits)

lemma renew_step_id [simp]: "s_id (renew_step flt now s t) = s_id t"
  by (simp add: renew_step_def)

lemma map_id_renew_step [simp]: "map s_id (map (renew_step flt now s) xs) = map s_id xs"
  by (induction xs) auto

lemma id_comp_renew_step [simp]: "s_id \<circ> renew_step flt now s = s_id"
  by (simp add: fun_eq_iff)

lemma renew_tx_run:
  assumes "find (\<lambda>t. s_id t = s_id s) (subscriptions db) = Some t"
  shows "transaction (renew_tx flt now s p) db =
           (case item_fault flt s of
              Some msg \<Rightarrow> (Inl (StoreError msg), db)
            | None \<Rightarrow>
                (Inr (t\<lparr>currentPeriodStart := currentPeriodEnd s,
                        currentPeriodEnd := newPeriodEnd s, updatedAt := now\<rparr>),
                 db\<lparr>subscriptions :=
                       update_first (\<lambda>t. s_id t = s_id s)
                         (\<lambda>t. t\<lparr>currentPeriodStart := currentPeriodEnd s,
                                 currentPeriodEnd := newPeriodEnd s, updatedAt := now\<rparr>)
                         (subscriptions db),
                    creditLedger := creditLedger db @ [renewal_grant (s, p, u)]\<rparr>))"
  using assms
  by (simp add: renew_tx_def subscription_update_def creditLedger_create_def action_defs
        item_fault_def renewal_grant_def split: option.splits)

lemma renew_one_run:
  assumes "s_id s \<in> set (map s_id (subscriptions db))"
  shows "renew_one flt now (s, p, u) db =
           (Inr (renewal_of flt (s, p, u)),
            if item_fault flt s = None
            then db\<lparr>subscriptions :=
                      update_first (\<lambda>t. s_id t = s_id s)
                        (\<lambda>t. t\<lparr>currentPeriodStart := currentPeriodEnd s,
                                currentPeriodEnd := newPeriodEnd s, updatedAt := now\<rparr>)
                        (subscriptions db),
                    creditLedger := creditLedger db @ [renewal_grant (s, p, u)]\<rparr>
            else db)"
proof -
  from assms obtain t where "find (\<lambda>t. s_id t = s_id s) (subscriptions db) = Some t"
    by (cases "find (\<lambda>t. s_id t = s_id s) (subscriptions db)") (auto simp: find_None_iff)
  from renew_tx_run [OF this, of flt now p u] show ?thesis
    by (simp add: renew_one_def try_catch_def await_def return_def renewal_of_def
          split: option.splits)
qed

lemma renew_one_distinct:
  assumes "s_id s \<in> set (map s_id (subscriptions db))"
      and "distinct (map s_id (subscriptions db))"
  shows "renew_one flt now (s, p, u) db =
           (Inr (renewal_of flt (s, p, u)),
            db\<lparr>subscriptions := map (renew_step flt now s) (subscriptions db),
               creditLedger :=
                 creditLedger db @ (if item_fault flt s = None then [renewal_grant (s, p, u)]
                                    else [])\<rparr>)"
proof (cases "item_fault flt s = None")
  case True
  then have "map (renew_step flt now s) (subscriptions db) =
        update_first (\<lambda>t. s_id t = s_id s)
                        (\<lambda>t. t\<lparr>currentPeriodStart := currentPeriodEnd s,
                                currentPeriodEnd := newPeriodEnd s, updatedAt := now\<rparr>)
                        (subscriptions db)"
    using update_first_distinct [OF assms(2)] by (simp add: renew_step_def)
  with True renew_one_run [OF assms(1)] show ?thesis by simp
next
  case False
  then have "renew_step flt now s = (\<lambda>t. t)"
    by (auto simp: renew_step_def fun_eq_iff)
  then have "map (renew_step flt now s) (subscriptions db) = subscriptions db"
    by simp
  with False renew_one_run [OF assms(1)] show ?thesis by auto
qed

lemma renew_loop_results:
  "\<forall>item \<in> set items. s_id (fst item) \<in> set (map s_id (subscriptions db)) \<Longrightarrow>
   fst (renew_loop flt now items acc db) = Inr (acc @ map (renewal_of flt) items)"
proof (induction items arbitrary: acc db)
  case Nil
  then show ?case by (simp add: return_def)
next
  case (Cons item items)
  obtain s p u where item: "item = (s, p, u)" by (cases item)
  with Cons.prems have here: "s_id s \<in> set (map s_id (subscriptions db))" by simp
  let ?db1 = "snd (renew_one flt now (s, p, u) db)"
  have "map s_id (subscriptions ?db1) = map s_id (subscriptions db)"
    by (simp add: renew_one_run [OF here] map_update_first)
  with Cons.prems
  have "\<forall>item \<in> set items. s_id (fst item) \<in> set (map s_id (subscriptions ?db1))"
    by simp
  from Cons.IH [OF this, of "acc @ [renewal_of flt (s, p, u)]"] show ?case
    by (simp add: item await_def renew_one_run [OF here])
qed

lemma renew_loop_distinct:
  "\<forall>item \<in> set items. s_id (fst item) \<in> set (map s_id (subscriptions db)) \<Longrightarrow>
   distinct (map s_id (subscriptions db)) \<Longrightarrow>
   renew_loop flt now items acc db =
     (Inr (acc @ map (renewal_of flt) items),
      db\<lparr>subscriptions := map (fold (renew_step flt now) (map fst items)) (subscriptions db),
         creditLedger :=
           creditLedger db @
             map renewal_grant (filter (\<lambda>item. item_fault flt (fst item) = None) items)\<rparr>)"
proof (induction items arbitrary: acc db)
  case Nil
  then show ?case by (simp add: return_def)
next
  case (Cons item items)
  obtain s p u where item: "item = (s, p, u)" by (cases item)
  with Cons.prems have here: "s_id s \<in> set (map s_id (subscriptions db))" by simp
  let ?db1 = "db\<lparr>subscriptions := map (renew_step flt now s) (subscriptions db),
               creditLedger :=
                 creditLedger db @ (if item_fault flt s = None then [renewal_grant (s, p, u)]
                                    else [])\<rparr>"
  have one: "renew_one flt now (s, p, u) db = (Inr (renewal_of flt (s, p, u)), ?db1)"
    by (rule renew_one_distinct [OF here Cons.prems(2)])
  have "\<forall>item \<in> set items. s_id (fst item) \<in> set (map s_id (subscriptions ?db1))"
    and "distinct (map s_id (subscriptions ?db1))"
    using Cons.prems by simp_all
  from Cons.IH [OF this, of "acc @ [renewal_of flt (s, p, u)]"] show ?case
    by (simp add: item await_def one)
qed

lemma fold_renew_step_other:
  "\<forall>s \<in> set ss. s_id s \<noteq> s_id t \<Longrightarrow> fold (renew_step flt now) ss t = t"
  by (induction ss arbitrary: t) (auto simp: renew_step_def)

lemma fold_renew_step_self:
  "distinct (map s_id ss) \<Longrightarrow> t \<in> set ss \<Longrightarrow>
   s_id t' = s_id t \<Longrightarrow> fold (renew_step flt now) ss t' = renew_step flt now t t'"
proof (induction ss arbitrary: t')
  case Nil
  then show ?case by simp
next
  case (Cons a ss)
  show ?case
  proof (cases "a = t")
    case True
    with Cons.prems have "\<forall>s \<in> set ss. s_id s \<noteq> s_id (renew_step flt now t t')"
      by (auto simp: image_iff)
    with True show ?thesis
      by (simp add: fold_renew_step_other)
  next
    case False
    with Cons.prems have t: "t \<in> set ss" and "s_id a \<noteq> s_id t"
      by (auto simp: image_iff)
    with Cons.prems have "renew_step flt now a t' = t'"
      by (simp add: renew_step_def)
    with Cons.IH [of t'] Cons.prems t show ?thesis by simp
  qed
qed

lemma fold_renew_step_due:
  assumes "distinct (map s_id xs)" and "t \<in> set xs"
  shows "fold (renew_step flt now) (filter (is_due now) xs) t =
           (if is_due now t \<and> item_fault flt t = None then extended now t else t)"
proof (cases "is_due now t")
  case True
  from assms(1) have "distinct (map s_id (filter (is_due now) xs))"
    by (simp add: distinct_map_filter)
  moreover from True assms have "t \<in> set (filter (is_due now) xs)" by simp
  ultimately have "fold (renew_step flt now) (filter (is_due now) xs) t = renew_step flt now t t"
    by (rule fold_renew_step_self) simp
  with True show ?thesis by (simp add: renew_step_def extended_def)
next
  case False
  have "\<forall>s \<in> set (filter (is_due now) xs). s_id s \<noteq> s_id t"
  proof
    fix s assume "s \<in> set (filter (is_due now) xs)"
    with False have "s \<in> set xs" "s \<noteq> t" by auto
    with assms show "s_id s \<noteq> s_id t"
      by (metis distinct_map inj_onD)
  qed
  with False show ?thesis by (simp add: fold_renew_step_other)
qed

lemma renewDueSubscriptions_run:
  assumes ids: "distinct (map s_id (subscriptions db))"
      and answered: "flt Subscription_findMany [] = None"
      and joined: "include_plan_user db (filter (is_due now) (subscriptions db)) = Inr items"
  shows "renewDueSubscriptions flt now db =
           (Inr \<lparr>renewed = length (filter success (map (renewal_of flt) items)),
                 failed = length (filter (\<lambda>r. \<not> success r) (map (renewal_of flt) items)),
                 results = map (renewal_of flt) items\<rparr>,
            db\<lparr>subscriptions :=
                 map (\<lambda>t. if is_due now t \<and> item_fault flt t = None then extended now t else t)
                   (subscriptions db),
               creditLedger :=
                 creditLedger db @
                   map renewal_grant (filter (\<lambda>item. item_fault flt (fst item) = None) items)\<rparr>)"
proof -
  from include_plan_user_Inr [OF joined]
  have sel: "map fst items = filter (is_due now) (subscriptions db)" by simp
  have "set (map fst items) \<subseteq> set (subscriptions db)"
    unfolding sel by auto
  then have present: "\<forall>item \<in> set items. s_id (fst item) \<in> set (map s_id (subscriptions db))"
    by auto
  have "map (fold (renew_step flt now) (map fst items)) (subscriptions db) =
        map (\<lambda>t. if is_due now t \<and> item_fault flt t = None then extended now t else t)
          (subscriptions db)"
    unfolding sel using fold_renew_step_due [OF ids] by (intro map_cong) auto
  with renew_loop_distinct [OF present ids, of flt now "[]"] answered joined
  show ?thesis
    by (simp add: renewDueSubscriptions_def subscription_findMany_due_def call_def await_def
          return_def)
qed

lemma success_renewal_of:
  "success (renewal_of flt item) \<longleftrightarrow> item_fault flt (fst item) = None"
  by (cases item) (simp add: renewal_of_def split: option.splits)

lemma subscriptionId_renewal_of: "subscriptionId (renewal_of flt item) = s_id (fst item)"
  by (cases item) (simp add: renewal_of_def split: option.splits)

lemma include_plan_user_total:
  "\<forall>s \<in> set ss. find (\<lambda>p. p_id p = s_planId s) (plans db) \<noteq> None \<and>
                 find (\<lambda>u. u_id u = s_userId s) (users db) \<noteq> None \<Longrightarrow>
   \<exists>items. include_plan_user db ss = Inr items"
  by (induction ss) (auto split: option.splits)

lemma item_fault_no_faults [simp]: "item_fault no_faults s = None"
  by (simp add: item_fault_def no_faults_def)

lemma is_due_extended:
  "is_due now t \<Longrightarrow> is_due now (extended now t) \<longleftrightarrow> date_le (newPeriodEnd t) now"
  by (simp add: is_due_def extended_def)

text \<open>
  C4. \<open>renewDueSubscriptions\<close> selects exactly the subscriptions with status \<open>active\<close>,
  \<open>cancelAtPeriodEnd\<close> false and \<open>currentPeriodEnd \<le> now\<close>, each with its plan. On a
  store with unique subscription keys that answers the query, every selected subscription
  whose transaction the store does not reject has \<open>currentPeriodStart\<close> set to its old
  \<open>currentPeriodEnd\<close> and \<open>currentPeriodEnd\<close> advanced by \<open>setMonth\<close> one calendar month,
  twelve for a \<open>yearly\<close> cycle, and the ledger gains one \<open>granted\<close> entry of the plan's
  quota (\<open>dailyCredits\<close> if \<open>isDaily\<close>, else \<open>monthlyCredits\<close>) for it; a selected
  subscription whose transaction is rejected has neither the new period nor the grant;
  every other row and table is unchanged.
\<close>

theorem renewDueSubscriptions_effect:
  assumes "distinct (map s_id (subscriptions db))"
      and "flt Subscription_findMany [] = None"
      and "include_plan_user db (filter (is_due now) (subscriptions db)) = Inr items"
  shows "map fst items = filter (is_due now) (subscriptions db) \<and>
         (\<forall>(s, p, u) \<in> set items. find (\<lambda>p. p_id p = s_planId s) (plans db) = Some p) \<and>
         snd (renewDueSubscriptions flt now db) =
           db\<lparr>subscriptions :=
                map (\<lambda>t. if is_due now t \<and> item_fault flt t = None
                          then t\<lparr>currentPeriodStart := currentPeriodEnd t,
                                 currentPeriodEnd :=
                                   setMonth (currentPeriodEnd t)
                                     (getMonth (currentPeriodEnd t)
                                        + (if billingCycle t = ''yearly'' then 12 else 1)),
                                 updatedAt := now\<rparr>
                          else t)
                  (subscriptions db),
              creditLedger :=
                creditLedger db @
                  map (\<lambda>(s, p, u).
                         \<lparr>l_userId = s_userId s, l_subscriptionId = s_id s,
                          l_amount = (if isDaily p then dailyCredits p else monthlyCredits p),
                          l_type = ''granted'',
                          l_description =
                            ''Credits granted for '' @ billingCycle s @ '' renewal''\<rparr>)
                    (filter (\<lambda>(s, p, u). item_fault flt s = None) items)\<rparr>"
proof -
  have g: "renewal_grant =
             (\<lambda>(s, p, u).
                \<lparr>l_userId = s_userId s, l_subscriptionId = s_id s,
                 l_amount = (if isDaily p then dailyCredits p else monthlyCredits p),
                 l_type = ''granted'',
                 l_description = ''Credits granted for '' @ billingCycle s @ '' renewal''\<rparr>)"
    by (simp add: renewal_grant_def creditsToGrant_def fun_eq_iff)
  have f: "(\<lambda>item. item_fault flt (fst item) = None) = (\<lambda>(s, p, u). item_fault flt s = None)"
    by (simp add: fun_eq_iff)
  have e: "extended now =
             (\<lambda>t. t\<lparr>currentPeriodStart := currentPeriodEnd t,
                     currentPeriodEnd :=
                       setMonth (currentPeriodEnd t)
                         (getMonth (currentPeriodEnd t)
                            + (if billingCycle t = ''yearly'' then 12 else 1)),
                     updatedAt := now\<rparr>)"
    by (simp add: extended_def newPeriodEnd_def periodMonths_def fun_eq_iff)
  from include_plan_user_Inr [OF assms(3)]
  have "map fst items = filter (is_due now) (subscriptions db)"
   and "\<forall>(s, p, u) \<in> set items. find (\<lambda>p. p_id p = s_planId s) (plans db) = Some p"
    by auto
  moreover from renewDueSubscriptions_run [of db flt now items] assms
  have "snd (renewDueSubscriptions flt now db) =
          db\<lparr>subscriptions :=
                 map (\<lambda>t. if is_due now t \<and> item_fault flt t = None then extended now t else t)
                   (subscriptions db),
               creditLedger :=
                 creditLedger db @
                   map renewal_grant (filter (\<lambda>item. item_fault flt (fst item) = None) items)\<rparr>"
    by simp
  ultimately show ?thesis
    unfolding g f e by simp
qed

theorem renewDueSubscriptions_effect_witness:
  "map currentPeriodStart
     (subscriptions (snd (renewDueSubscriptions (rejecting_for CreditLedger_create ''s4'')
                            (on_day 2024 2 15) renew_shop)))
     = [on_day 2024 2 2, on_day 2023 2 10, on_day 2023 0 10] \<and>
   map currentPeriodEnd
     (subscriptions (snd (renewDueSubscriptions (rejecting_for CreditLedger_create ''s4'')
                            (on_day 2024 2 15) renew_shop)))
     = [on_day 2024 3 2, on_day 2024 2 10, on_day 2023 1 10] \<and>
   map l_amount
     (creditLedger (snd (renewDueSubscriptions (rejecting_for CreditLedger_create ''s4'')
                           (on_day 2024 2 15) renew_shop)))
     = [25] \<and>
   map currentPeriodEnd
     (subscriptions (snd (renewDueSubscriptions no_faults (on_day 2024 2 15) renew_shop)))
     = [on_day 2024 3 2, on_day 2025 2 10, on_day 2023 1 10] \<and>
   map l_amount
     (creditLedger (snd (renewDueSubscriptions no_faults (on_day 2024 2 15) renew_shop)))
     = [25, 1000]"
proof -
  have ids: "distinct (map s_id (subscriptions renew_shop))"
    by code_simp
  have joined:
    "include_plan_user renew_shop (filter (is_due (on_day 2024 2 15)) (subscriptions renew_shop))
       = Inr [(monthly_due, pro_plan, alice), (yearly_due, premium_plan, bob)]"
    by code_simp
  have answered: "rejecting_for CreditLedger_create ''s4'' Subscription_findMany [] = None"
                 "no_faults Subscription_findMany [] = None"
    by (simp_all add: rejecting_for_def no_faults_def)
  note one = renewDueSubscriptions_effect
               [where db = renew_shop and flt = "rejecting_for CreditLedger_create ''s4''"
                  and now = "on_day 2024 2 15"
                  and items = "[(monthly_due, pro_plan, alice), (yearly_due, premium_plan, bob)]",
                OF ids answered(1) joined, THEN conjunct2, THEN conjunct2]
   and all = renewDueSubscriptions_effect
               [where db = renew_shop and flt = no_faults and now = "on_day 2024 2 15"
                  and items = "[(monthly_due, pro_plan, alice), (yearly_due, premium_plan, bob)]",
                OF ids answered(2) joined, THEN conjunct2, THEN conjunct2]
  show ?thesis
    unfolding one all by code_simp
qed

text \<open>
  C5, as amended. After a run at \<open>now\<close> on a sound store that answers, a subscription that
  was due is renewed once; a second run at the same instant renews it once more exactly when
  its advanced period end is still not after \<open>now\<close> (it was overdue by a whole period or
  more), and leaves it alone when the advanced end is after \<open>now\<close>. The second run lists
  exactly the subscriptions of the first kind.
\<close>

theorem renew_twice:
  assumes ids: "distinct (map s_id (subscriptions db))"
      and fk: "\<forall>s \<in> set (subscriptions db).
                 find (\<lambda>p. p_id p = s_planId s) (plans db) \<noteq> None \<and>
                 find (\<lambda>u. u_id u = s_userId s) (users db) \<noteq> None"
  shows "subscriptions
           (snd (renewDueSubscriptions no_faults now
                   (snd (renewDueSubscriptions no_faults now db)))) =
           map (\<lambda>t. if is_due now t
                     then (if date_le (newPeriodEnd t) now then extended now (extended now t)
                           else extended now t)
                     else t)
             (subscriptions db) \<and>
         (case fst (renewDueSubscriptions no_faults now
                      (snd (renewDueSubscriptions no_faults now db))) of
            Inl e \<Rightarrow> False
          | Inr r \<Rightarrow>
              map subscriptionId (results r) =
                map s_id (filter (\<lambda>t. is_due now t \<and> date_le (newPeriodEnd t) now)
                            (subscriptions db)))"
proof -
  let ?g = "\<lambda>t. if is_due now t then extended now t else t"
  let ?db1 = "snd (renewDueSubscriptions no_faults now db)"
  have answered: "no_faults Subscription_findMany [] = None"
    by (simp add: no_faults_def)
  from fk have "\<forall>s \<in> set (filter (is_due now) (subscriptions db)).
                 find (\<lambda>p. p_id p = s_planId s) (plans db) \<noteq> None \<and>
                 find (\<lambda>u. u_id u = s_userId s) (users db) \<noteq> None"
    by simp
  from include_plan_user_total [OF this] obtain items1 where
    j1: "include_plan_user db (filter (is_due now) (subscriptions db)) = Inr items1" ..
  from renewDueSubscriptions_run [of db no_faults now items1] ids answered j1
  have db1: "?db1 = db\<lparr>subscriptions := map ?g (subscriptions db),
                        creditLedger := creditLedger db @ map renewal_grant items1\<rparr>"
    by simp
  have id_g: "s_id (?g t) = s_id t" for t
    by (simp add: extended_def)
  have subs1: "subscriptions ?db1 = map ?g (subscriptions db)"
    and same: "plans ?db1 = plans db" "users ?db1 = users db"
    by (simp_all add: db1)
  have ids1: "distinct (map s_id (subscriptions ?db1))"
    using ids by (simp add: subs1 comp_def id_g)
  have "\<forall>s \<in> set (filter (is_due now) (subscriptions ?db1)).
                 find (\<lambda>p. p_id p = s_planId s) (plans ?db1) \<noteq> None \<and>
                 find (\<lambda>u. u_id u = s_userId s) (users ?db1) \<noteq> None"
    using fk by (auto simp: subs1 same extended_def)
  from include_plan_user_total [OF this] obtain items2 where
    j2: "include_plan_user ?db1 (filter (is_due now) (subscriptions ?db1)) = Inr items2" ..
  note run2 = renewDueSubscriptions_run [of ?db1 no_faults now items2, OF ids1 answered j2]
  have due_g: "is_due now (?g t) \<longleftrightarrow> is_due now t \<and> date_le (newPeriodEnd t) now" for t
    using is_due_extended [of now t] by auto
  have "subscriptions (snd (renewDueSubscriptions no_faults now ?db1)) =
          map ?g (map ?g (subscriptions db))"
    by (simp add: run2 subs1)
  also have "\<dots> = map (\<lambda>t. if is_due now t
                     then (if date_le (newPeriodEnd t) now then extended now (extended now t)
                           else extended now t)
                     else t) (subscriptions db)"
    using is_due_extended [of now] by (auto simp: comp_def)
  finally have rows: "subscriptions (snd (renewDueSubscriptions no_faults now ?db1)) =
           map (\<lambda>t. if is_due now t
                     then (if date_le (newPeriodEnd t) now then extended now (extended now t)
                           else extended now t)
                     else t) (subscriptions db)" .
  from include_plan_user_Inr [OF j2]
  have "map fst items2 = filter (is_due now) (map ?g (subscriptions db))"
    by (simp add: subs1)
  also have "\<dots> = map ?g (filter (\<lambda>t. is_due now t \<and> date_le (newPeriodEnd t) now)
                            (subscriptions db))"
    by (simp add: filter_map comp_def due_g)
  finally have "map s_id (map fst items2) =
                  map s_id (filter (\<lambda>t. is_due now t \<and> date_le (newPeriodEnd t) now)
                              (subscriptions db))"
    by (simp add: comp_def id_g)
  then have "map subscriptionId (map (renewal_of no_faults) items2) =
                  map s_id (filter (\<lambda>t. is_due now t \<and> date_le (newPeriodEnd t) now)
                              (subscriptions db))"
    by (simp add: comp_def subscriptionId_renewal_of)
  with rows show ?thesis
    by (simp add: run2)
qed

theorem renew_twice_witness:
  "map currentPeriodEnd
     (subscriptions
        (snd (renewDueSubscriptions no_faults (on_day 2024 2 15)
                (snd (renewDueSubscriptions no_faults (on_day 2024 2 15) renew_shop)))))
     = [on_day 2024 3 2, on_day 2025 2 10, on_day 2023 1 10] \<and>
   map currentPeriodEnd
     (subscriptions
        (snd (renewDueSubscriptions no_faults (on_day 2024 2 15)
                (snd (renewDueSubscriptions no_faults (on_day 2024 2 15) overdue_shop)))))
     = [on_day 2024 2 1]"
proof -
  have ids: "distinct (map s_id (subscriptions renew_shop))"
            "distinct (map s_id (subscriptions overdue_shop))"
    by code_simp+
  have fk: "\<forall>s \<in> set (subscriptions renew_shop).
              find (\<lambda>p. p_id p = s_planId s) (plans renew_shop) \<noteq> None \<and>
              find (\<lambda>u. u_id u = s_userId s) (users renew_shop) \<noteq> None"
           "\<forall>s \<in> set (subscriptions overdue_shop).
              find (\<lambda>p. p_id p = s_planId s) (plans overdue_shop) \<noteq> None \<and>
              find (\<lambda>u. u_id u = s_userId s) (users overdue_shop) \<noteq> None"
    by code_simp+
  note once = renew_twice [OF ids(1) fk(1), of "on_day 2024 2 15", THEN conjunct1]
   and again = renew_twice [OF ids(2) fk(2), of "on_day 2024 2 15", THEN conjunct1]
  show ?thesis
    unfolding once again by code_simp
qed

text \<open>
  A subscription whose period ended on 1 January is renewed by a run on 15 March to
  1 February, is still due, and is renewed again by an immediate second run, with a second
  grant.
\<close>

theorem renew_twice_counterexample:
  "is_due (on_day 2024 2 15) (hd (subscriptions overdue_shop)) \<and>
   map currentPeriodEnd (subscriptions overdue_shop) = [on_day 2024 0 1] \<and>
   map currentPeriodEnd
     (subscriptions (snd (renewDueSubscriptions no_faults (on_day 2024 2 15) overdue_shop)))
     = [on_day 2024 1 1] \<and>
   date_le (on_day 2024 1 1) (on_day 2024 2 15) \<and>
   map currentPeriodEnd
     (subscriptions
        (snd (renewDueSubscriptions no_faults (on_day 2024 2 15)
                (snd (renewDueSubscriptions no_faults (on_day 2024 2 15) overdue_shop)))))
     = [on_day 2024 2 1] \<and>
   map l_amount
     (creditLedger
        (snd (renewDueSubscriptions no_faults (on_day 2024 2 15)
                (snd (renewDueSubscriptions no_faults (on_day 2024 2 15) overdue_shop)))))
     = [25, 25] \<and>
   fst (renewDueSubscriptions no_faults (on_day 2024 2 15)
          (snd (renewDueSubscriptions no_faults (on_day 2024 2 15) overdue_shop)))
     = Inr \<lparr>renewed = 1, failed = 0,
            results = [Renewed ''s3'' ''clerk_alice'' (on_day 2024 2 1) 25]\<rparr>"
  by code_simp

text \<open>
  C6. \<open>renewDueSubscriptions\<close> throws exactly when the query that lists the due
  subscriptions fails, and then with that error and no change. Otherwise it returns, whatever
  the store rejects afterwards: the result list has one entry for each due subscription, in
  order, a rejected one recorded as failed with its key and the error, the others as
  renewed, and \<open>renewed\<close> and \<open>failed\<close> count the two kinds.
\<close>

theorem renewDueSubscriptions_isolates_failures:
  "case subscription_findMany_due flt now db of
     (Inl e, db') \<Rightarrow> renewDueSubscriptions flt now db = (Inl e, db)
   | (Inr items, db') \<Rightarrow>
       fst (renewDueSubscriptions flt now db) =
         Inr \<lparr>renewed = length (filter (\<lambda>item. item_fault flt (fst item) = None) items),
              failed = length (filter (\<lambda>item. item_fault flt (fst item) \<noteq> None) items),
              results = map (renewal_of flt) items\<rparr> \<and>
       length (filter (\<lambda>item. item_fault flt (fst item) = None) items)
         + length (filter (\<lambda>item. item_fault flt (fst item) \<noteq> None) items) = length items \<and>
       map subscriptionId (map (renewal_of flt) items)
         = map s_id (filter (is_due now) (subscriptions db))"
proof (cases "subscription_findMany_due flt now db")
  case (Pair r db')
  have unchanged: "db' = db"
    using Pair by (auto simp: subscription_findMany_due_def call_def throw_def split: option.splits)
  show ?thesis
  proof (cases r)
    case (Inl e)
    with Pair unchanged show ?thesis
      by (simp add: renewDueSubscriptions_def await_def)
  next
    case (Inr items)
    with Pair have joined: "include_plan_user db (filter (is_due now) (subscriptions db)) = Inr items"
      by (auto simp: subscription_findMany_due_def call_def throw_def split: option.splits)
    from include_plan_user_Inr [OF joined]
    have sel: "map fst items = filter (is_due now) (subscriptions db)" by simp
    have "set (map fst items) \<subseteq> set (subscriptions db)"
      unfolding sel by auto
    then have "\<forall>item \<in> set items. s_id (fst item) \<in> set (map s_id (subscriptions db))"
      by auto
    from renew_loop_results [OF this, of flt now "[]"]
    have loop: "fst (renew_loop flt now items [] db) = Inr (map (renewal_of flt) items)"
      by simp
    have "fst (renewDueSubscriptions flt now db) =
            Inr \<lparr>renewed = length (filter success (map (renewal_of flt) items)),
                 failed = length (filter (\<lambda>r. \<not> success r) (map (renewal_of flt) items)),
                 results = map (renewal_of flt) items\<rparr>"
      using Pair Inr unchanged loop
      by (cases "renew_loop flt now items [] db")
         (simp add: renewDueSubscriptions_def await_def return_def)
    then have summary: "fst (renewDueSubscriptions flt now db) =
         Inr \<lparr>renewed = length (filter (\<lambda>item. item_fault flt (fst item) = None) items),
              failed = length (filter (\<lambda>item. item_fault flt (fst item) \<noteq> None) items),
              results = map (renewal_of flt) items\<rparr>"
      by (simp add: filter_map comp_def success_renewal_of)
    have counted: "length (filter (\<lambda>item. item_fault flt (fst item) = None) items)
         + length (filter (\<lambda>item. item_fault flt (fst item) \<noteq> None) items) = length items"
      by (rule sum_length_filter_compl)
    have named: "map subscriptionId (map (renewal_of flt) items)
                     = map s_id (filter (is_due now) (subscriptions db))"
      unfolding sel [symmetric] by (simp add: subscriptionId_renewal_of comp_def)
    show ?thesis
      unfolding Pair Inr
      by (simp only: prod.case sum.case) (intro conjI summary counted named)
  qed
qed

theorem renewDueSubscriptions_isolates_failures_witness:
  "fst (renewDueSubscriptions (rejecting_for Subscription_update ''s3'') (on_day 2024 2 15)
          renew_shop) =
     Inr \<lparr>renewed = 1, failed = 1,
          results = [Failed ''s3'' ''clerk_alice'' (StoreError ''Connection lost''),
                     Renewed ''s4'' ''clerk_bob'' (on_day 2025 2 10) 1000]\<rparr> \<and>
   renewDueSubscriptions (rejecting Subscription_findMany) (on_day 2024 2 15) renew_shop =
     (Inl (StoreError ''Connection lost''), renew_shop)"
proof -
  have listed:
    "subscription_findMany_due (rejecting_for Subscription_update ''s3'') (on_day 2024 2 15)
       renew_shop
       = (Inr [(monthly_due, pro_plan, alice), (yearly_due, premium_plan, bob)], renew_shop)"
    by code_simp
  have refused:
    "subscription_findMany_due (rejecting Subscription_findMany) (on_day 2024 2 15) renew_shop
       = (Inl (StoreError ''Connection lost''), renew_shop)"
    by code_simp
  have outcome:
    "map (renewal_of (rejecting_for Subscription_update ''s3''))
       [(monthly_due, pro_plan, alice), (yearly_due, premium_plan, bob)]
       = [Failed ''s3'' ''clerk_alice'' (StoreError ''Connection lost''),
          Renewed ''s4'' ''clerk_bob'' (on_day 2025 2 10) 1000]"
    by code_simp
  have counts:
    "length (filter (\<lambda>item. item_fault (rejecting_for Subscription_update ''s3'') (fst item) = None)
       [(monthly_due, pro_plan, alice), (yearly_due, premium_plan, bob)]) = 1"
    "length (filter (\<lambda>item. item_fault (rejecting_for Subscription_update ''s3'') (fst item) \<noteq> None)
       [(monthly_due, pro_plan, alice), (yearly_due, premium_plan, bob)]) = 1"
    by code_simp+
  from renewDueSubscriptions_isolates_failures
         [of "rejecting_for Subscription_update ''s3''" "on_day 2024 2 15" renew_shop]
       renewDueSubscriptions_isolates_failures
         [of "rejecting Subscription_findMany" "on_day 2024 2 15" renew_shop]
  show ?thesis
    unfolding listed refused by (simp only: prod.case sum.case outcome counts)
qed

subsection \<open>The single active subscription\<close>

lemma active_count_keys:
  "active_count db uid =
     length (filter (\<lambda>k. fst (snd k) = uid \<and> snd (snd k) = ''active'')
               (map sub_key (subscriptions db)))"
  by (simp add: active_count_def filter_map comp_def sub_key_def active_of_def [abs_def])

lemma store_ok_keys:
  "store_ok db = keys_ok (map sub_key (subscriptions db)) (map u_id (users db))"
proof -
  have "fst \<circ> sub_key = s_id"
    by (simp add: sub_key_def fun_eq_iff)
  then show ?thesis
    unfolding store_ok_def keys_ok_def active_count_keys
    by (simp add: sub_key_def)
qed


lemma store_ok_same:
  "subscriptions db' = subscriptions db \<Longrightarrow> users db' = users db \<Longrightarrow>
   store_ok db' = store_ok db"
  by (simp add: store_ok_keys)




subsection \<open>Conditions of the store that every run keeps\<close>







lemma preserves_call: "preserves I m \<Longrightarrow> preserves I (call flt c k m)"
  by (simp add: preserves_def call_def throw_def split: option.splits)



















subsection \<open>Signup\<close>














subsection \<open>Calls that do not overlap\<close>











subsection \<open>Subscription query\<close>

text \<open>
  C10. For a user that exists and has no active subscription, \<open>getSubscriptionDetails\<close>
  returns a success result with no subscription and \<open>availableCredits = 0\<close>, and leaves
  the store as it is. The result does not depend on the ledger, and the sum of the ledger
  is not asked for: the result is the same when the store would reject that query.
\<close>

theorem getSubscriptionDetails_no_active:
  assumes "find (\<lambda>u. clerkUserId u = userId) (users db) = Some user"
      and "find (active_of (u_id user)) (subscriptions db) = None"
      and "flt User_findUnique userId = None"
      and "flt Subscription_findFirst (u_id user) = None"
  shows "getSubscriptionDetails flt now userId db =
           (Inr \<lparr>det_subscription = None, availableCredits = 0, det_dailyUsage = None,
                 dailyLimit = None, recentCredits = []\<rparr>, db)"
  using assms
  by (simp add: getSubscriptionDetails_def user_findUnique_def subscription_findFirst_def
        action_defs)

theorem getSubscriptionDetails_no_active_witness:
  "availableBalance ledger_only ''u1'' = 7 \<and>
   aggregate_down CreditLedger_aggregate ''u1'' = Some ''Connection lost'' \<and>
   getSubscriptionDetails aggregate_down (on_day 2024 2 15) ''clerk_alice'' ledger_only =
     (Inr \<lparr>det_subscription = None, availableCredits = 0, det_dailyUsage = None,
           dailyLimit = None, recentCredits = []\<rparr>, ledger_only)"
  using getSubscriptionDetails_no_active
          [of "''clerk_alice''" ledger_only alice aggregate_down "on_day 2024 2 15"]
  by (simp add: ledger_only_def alice_def aggregate_down_def availableBalance_def)


end
